theory Spec2Isabelle
  imports Complex_Main
begin

section \<open>ScreenGuardian: conventions of the embedding\<close>

text \<open>
  The embedding follows \<^verbatim>\<open>src/screenguardian_dev.py\<close>. Python floats are modelled as
  exact reals (rounding is not modelled), Python ints as \<open>int\<close>, an attribute that may
  be \<^verbatim>\<open>None\<close> or deleted with \<^verbatim>\<open>delattr\<close> as an \<open>option\<close>. Time stamps are
  the values returned by \<^verbatim>\<open>time.time()\<close> and are inputs of every step.
\<close>

definition py_int :: "real \<Rightarrow> int" where
  \<comment> \<open>Python's \<^verbatim>\<open>int(x)\<close> on a float: truncation towards zero.\<close>
  "py_int x = (if 0 \<le> x then \<lfloor>x\<rfloor> else \<lceil>x\<rceil>)"

definition truthy :: "real option \<Rightarrow> bool" where
  \<comment> \<open>Python truth value of a float attribute: \<^verbatim>\<open>None\<close> and \<^verbatim>\<open>0.0\<close> are false.\<close>
  "truthy v = (case v of None \<Rightarrow> False | Some x \<Rightarrow> x \<noteq> 0)"

section \<open>Frame handoff between the capture loop and the statistics loop\<close>

text \<open>
  \<^verbatim>\<open>self.frame_queue = queue.Queue(maxsize=1)\<close> (line 373). The queue holds frames and
  the stop sentinel \<^verbatim>\<open>None\<close>, so an item is a \<open>'f option\<close>. \<^verbatim>\<open>put_nowait\<close> and
  \<^verbatim>\<open>get_nowait\<close> never wait: they raise \<^verbatim>\<open>queue.Full\<close> / \<^verbatim>\<open>queue.Empty\<close>.
\<close>

datatype queue_error = Full | Empty

definition maxsize :: nat where
  "maxsize = 1"

definition put_nowait :: "'a list \<Rightarrow> 'a \<Rightarrow> queue_error + 'a list" where
  "put_nowait q x = (if maxsize \<le> length q then Inl Full else Inr (q @ [x]))"

definition get_nowait :: "'a list \<Rightarrow> queue_error + ('a \<times> 'a list)" where
  "get_nowait q = (case q of [] \<Rightarrow> Inl Empty | x # r \<Rightarrow> Inr (x, r))"

definition offer_frame :: "'f option list \<Rightarrow> 'f \<Rightarrow> 'f option list" where
  \<comment> \<open>\<^verbatim>\<open>_video_worker\<close>, lines 1484-1487: \<^verbatim>\<open>try: put_nowait(frame.copy()) except queue.Full: pass\<close>.\<close>
  "offer_frame q frame = (case put_nowait q (Some frame) of Inl e \<Rightarrow> q | Inr q' \<Rightarrow> q')"

definition offer_sentinel :: "'f option list \<Rightarrow> 'f option list" where
  \<comment> \<open>\<^verbatim>\<open>_video_worker\<close>, lines 1468-1478: the stop sentinel replaces a stored frame.\<close>
  "offer_sentinel q =
     (case put_nowait q None of
        Inr q' \<Rightarrow> q'
      | Inl e \<Rightarrow>
          (let q1 = (case get_nowait q of Inl e1 \<Rightarrow> q | Inr (x, r) \<Rightarrow> r)
           in (case put_nowait q1 None of Inl e2 \<Rightarrow> q1 | Inr q2 \<Rightarrow> q2)))"

section \<open>Settings and calibration\<close>

text \<open>
  \<^verbatim>\<open>self.calib\<close> is the dictionary loaded from the calibration file; a key may be
  absent. \<^verbatim>\<open>self.focal_length\<close> and \<^verbatim>\<open>self.real_ipd_cm\<close> are the defaults taken at
  start-up (lines 274-276). The other fields are the configuration attributes of lines
  258-273.
\<close>

record neutral_baseline =
  neutral_face_width_px :: "real option"
  neutral_shoulder_span_px :: "real option"
  neutral_eye_tilt_angle :: real

record calibration =
  calib_focal_length :: "real option"
  calib_real_ipd_cm :: "real option"
  calib_neutral :: "neutral_baseline option"

record settings =
  delay_seconds :: int
  active_alert_appear_seconds :: real
  min_distance_cm :: real
  enable_posture :: bool
  enable_distance :: bool
  enable_twenty :: bool
  enable_nail_biting :: bool
  enable_face_touch :: bool
  posture_vert_thresh :: real
  posture_eye_tilt_thresh :: real
  posture_neck_thresh :: real
  posture_depth_thresh :: real
  calib :: calibration
  focal_length :: real
  real_ipd_cm :: real

definition dict_get :: "'a option \<Rightarrow> 'a \<Rightarrow> 'a" where
  \<comment> \<open>\<^verbatim>\<open>d.get(key, default)\<close>\<close>
  "dict_get v d = (case v of None \<Rightarrow> d | Some x \<Rightarrow> x)"

definition calib_focal :: "settings \<Rightarrow> real" where
  \<comment> \<open>\<^verbatim>\<open>self.calib.get("focal_length", self.focal_length)\<close>\<close>
  "calib_focal env = dict_get (calib_focal_length (calib env)) (focal_length env)"

definition calib_ipd :: "settings \<Rightarrow> real" where
  \<comment> \<open>\<^verbatim>\<open>self.calib.get("real_ipd_cm", self.real_ipd_cm)\<close>\<close>
  "calib_ipd env = dict_get (calib_real_ipd_cm (calib env)) (real_ipd_cm env)"

section \<open>Distance estimator\<close>

definition beta :: real where
  "beta = 0.6"

definition avg_face_cm :: real where
  "avg_face_cm = 14.0"

definition smooth :: "real option \<Rightarrow> real \<Rightarrow> real" where
  \<comment> \<open>lines 2194-2196 and 2205-2207\<close>
  "smooth prev distance_cm =
     (case prev of None \<Rightarrow> distance_cm | Some p \<Rightarrow> beta * distance_cm + (1 - beta) * p)"

definition eye_estimate :: "settings \<Rightarrow> real option \<Rightarrow> real option \<Rightarrow> real option \<times> real option" where
  \<comment> \<open>lines 2188-2199; result: (\<^verbatim>\<open>distance_cm\<close>, \<^verbatim>\<open>_smoothed_distance_cm\<close>)\<close>
  "eye_estimate env prev pixel_ipd =
     (case pixel_ipd of
        None \<Rightarrow> (None, prev)
      | Some p \<Rightarrow>
          if p \<noteq> 0 \<and> p > 2.0 then
            (let real_ipd = calib_ipd env;
                 focal = calib_focal env
             in if real_ipd \<noteq> 0 \<and> focal \<noteq> 0
                then (let s = smooth prev ((real_ipd * focal) / p) in (Some s, Some s))
                else (None, prev))
          else (None, prev))"

definition face_estimate :: "settings \<Rightarrow> real option \<Rightarrow> int option \<Rightarrow> real option \<times> real option" where
  \<comment> \<open>lines 2200-2210\<close>
  "face_estimate env prev face_width =
     (case face_width of
        None \<Rightarrow> (None, prev)
      | Some w \<Rightarrow>
          if w > 8 then
            (let focal = calib_focal env;
                 s = smooth prev ((avg_face_cm * focal) / of_int w)
             in (Some s, Some s))
          else (None, prev))"

definition estimate_distance ::
  "settings \<Rightarrow> real option \<Rightarrow> real option \<Rightarrow> int option \<Rightarrow> real option \<times> real option" where
  \<comment> \<open>lines 2186-2210\<close>
  "estimate_distance env prev pixel_ipd face_width =
     (if enable_distance env then
        (case eye_estimate env prev pixel_ipd of
           (Some d, sm) \<Rightarrow> (Some d, sm)
         | (None, sm) \<Rightarrow> face_estimate env sm face_width)
      else (None, prev))"

fun feed_estimator ::
  "settings \<Rightarrow> real option \<Rightarrow> (real option \<times> int option) list \<Rightarrow> real option list \<times> real option" where
  \<comment> \<open>the estimator over consecutive cycles of \<^verbatim>\<open>_stats_worker\<close>: outputs and final filter state\<close>
  "feed_estimator env prev [] = ([], prev)"
| "feed_estimator env prev ((pixel_ipd, face_width) # rest) =
     (case estimate_distance env prev pixel_ipd face_width of
        (d, sm) \<Rightarrow> (case feed_estimator env sm rest of (ds, sm') \<Rightarrow> (d # ds, sm')))"

definition default_settings :: settings where
  \<comment> \<open>the defaults of lines 258-276, with an empty calibration file\<close>
  "default_settings =
     \<lparr>delay_seconds = 6, active_alert_appear_seconds = 1.0, min_distance_cm = 50.8,
      enable_posture = True, enable_distance = True, enable_twenty = True,
      enable_nail_biting = True, enable_face_touch = True,
      posture_vert_thresh = 0.70, posture_eye_tilt_thresh = 0.08,
      posture_neck_thresh = 0.55, posture_depth_thresh = 1.22,
      calib = \<lparr>calib_focal_length = None, calib_real_ipd_cm = None, calib_neutral = None\<rparr>,
      focal_length = 700, real_ipd_cm = 6.3\<rparr>"

section \<open>Persistent store\<close>

text \<open>
  The SQLite database of lines 188-247: seven tables. The connection \<^verbatim>\<open>conn\<close> runs
  with Python's default transaction handling: a write statement opens a transaction,
  every later read of the same connection sees the written rows, and \<^verbatim>\<open>conn.commit()\<close>
  makes them durable. \<open>work\<close> is what the connection sees, \<open>durable\<close> what is committed.
  A statement that raises a storage error is given by the set of failing statements of
  the step; the module-level \<^verbatim>\<open>cursor\<close> is \<^verbatim>\<open>None\<close> when the database could not be
  opened, which is a store of \<open>None\<close>.
\<close>

datatype table =
  Alerts | ScreenTime | PostureTime | DistanceLog | ScreenHourly | PostureHourly | DistanceHourly

datatype stmt = Select table | Upsert table | Insert table | Delete table | Commit

record tables =
  alerts :: "(string \<times> string) list"
  screen_time :: "string \<rightharpoonup> int"
  posture_time :: "string \<rightharpoonup> int"
  distance_log :: "string \<rightharpoonup> real option \<times> int option"
  screen_hourly :: "string \<rightharpoonup> int"
  posture_hourly :: "string \<rightharpoonup> int"
  distance_hourly :: "string \<rightharpoonup> real option \<times> int option"

record store =
  work :: tables
  durable :: tables

definition empty_tables :: tables where
  "empty_tables =
     \<lparr>alerts = [], screen_time = Map.empty, posture_time = Map.empty, distance_log = Map.empty,
      screen_hourly = Map.empty, posture_hourly = Map.empty, distance_hourly = Map.empty\<rparr>"

definition commit :: "store \<Rightarrow> store" where
  "commit st = st\<lparr>durable := work st\<rparr>"

definition fetch_int :: "(string \<rightharpoonup> int) \<Rightarrow> string \<Rightarrow> int" where
  \<comment> \<open>\<^verbatim>\<open>res = cursor.fetchone(); res[0] if res else 0\<close>\<close>
  "fetch_int t k = (case t k of None \<Rightarrow> 0 | Some v \<Rightarrow> v)"

definition fetch_real0 :: "(string \<rightharpoonup> real option \<times> int option) \<Rightarrow> string \<Rightarrow> real" where
  \<comment> \<open>\<^verbatim>\<open>res[0] if res and res[0] is not None else 0.0\<close>\<close>
  "fetch_real0 t k = (case t k of None \<Rightarrow> 0 | Some (a, c) \<Rightarrow> (case a of None \<Rightarrow> 0 | Some v \<Rightarrow> v))"

definition fetch_count1 :: "(string \<rightharpoonup> real option \<times> int option) \<Rightarrow> string \<Rightarrow> int" where
  \<comment> \<open>\<^verbatim>\<open>res[1] if res and res[1] is not None else 0\<close>\<close>
  "fetch_count1 t k = (case t k of None \<Rightarrow> 0 | Some (a, c) \<Rightarrow> (case c of None \<Rightarrow> 0 | Some v \<Rightarrow> v))"

definition delete_from :: "table \<Rightarrow> tables \<Rightarrow> tables" where
  \<comment> \<open>\<^verbatim>\<open>DELETE FROM table\<close>\<close>
  "delete_from t ts =
     (case t of
        Alerts \<Rightarrow> ts\<lparr>alerts := []\<rparr>
      | ScreenTime \<Rightarrow> ts\<lparr>screen_time := Map.empty\<rparr>
      | PostureTime \<Rightarrow> ts\<lparr>posture_time := Map.empty\<rparr>
      | DistanceLog \<Rightarrow> ts\<lparr>distance_log := Map.empty\<rparr>
      | ScreenHourly \<Rightarrow> ts\<lparr>screen_hourly := Map.empty\<rparr>
      | PostureHourly \<Rightarrow> ts\<lparr>posture_hourly := Map.empty\<rparr>
      | DistanceHourly \<Rightarrow> ts\<lparr>distance_hourly := Map.empty\<rparr>)"

definition emit_alert :: "stmt set \<Rightarrow> string \<Rightarrow> string \<Rightarrow> store option \<Rightarrow> store option" where
  \<comment> \<open>\<^verbatim>\<open>_emit_alert\<close>, lines 2414-2422 (the store part; errors are caught inside)\<close>
  "emit_alert F ts message db =
     (case db of
        None \<Rightarrow> None
      | Some st \<Rightarrow>
          if Insert Alerts \<in> F then Some st
          else (let st1 = st\<lparr>work := (work st)\<lparr>alerts := alerts (work st) @ [(ts, message)]\<rparr>\<rparr>
                in if Commit \<in> F then Some st1 else Some (commit st1)))"

section \<open>Session state\<close>

text \<open>
  The attributes of \<^verbatim>\<open>ScreenGuardianApp\<close> that the statistics loop, the shutdown handler
  and the data erase read and write (lines 287-372), grouped by component.
\<close>

record aggregator =
  visible_start :: "real option"
  visible_seconds :: int
  slouch_session_start :: "real option"
  slouch_accum_seconds :: int
  saved_visible_seconds :: int
  saved_slouch_seconds :: int
  pending_hour_visible_seconds :: int
  pending_hour_slouch_seconds :: int
  pending_hour_distance_sum :: real
  pending_hour_distance_count :: int
  pending_distance_sum :: real
  pending_distance_count :: int
  distance_sum_total :: real
  distance_count_total :: int
  distances_buffer :: "real list"
  prev_total_visible :: int
  prev_total_slouch :: int
  last_save_time :: real
  last_hour :: "string option"
  session_start :: "real option"
  session_count :: int

record today_stats =
  today_screen_sec :: int
  today_posture_sec :: int
  today_avg_cm :: "real option"
  today_distance_count :: int
  today_posture_alerts :: int
  today_distance_alerts :: int
  today_face_touch_alerts :: int
  session_posture_alerts :: int
  session_distance_alerts :: int
  session_face_touch_alerts :: int

record alert_timers =
  body_turned_start :: "real option"
  body_turned_active_since :: "real option"
  body_turned_notified :: "bool option"
  posture_start :: "real option"
  posture_active_since :: "real option"
  posture_notified :: "bool option"
  partial_start :: "real option"
  partial_active_since :: "real option"
  partial_notified :: "bool option"
  too_close_start :: "real option"
  too_close_active_since :: "real option"
  nail_biting_start :: "real option"
  nail_active_since :: "real option"
  nail_biting_detected :: bool
  face_touch_start :: "real option"
  face_touch_active_since :: "real option"
  face_touch_detected :: bool
  head_turn_start :: "real option"
  head_turn_duration :: real
  posture_reasons :: "string list"
  partial_missing_count :: int
  fully_missing_count :: int

record session =
  agg :: aggregator
  today :: today_stats
  timers :: alert_timers
  active_alerts :: "string set"
  cfg :: settings
  smoothed_distance_cm :: "real option"
  depth_baseline :: "real option"
  horizontal_offset_history :: "real option list"
  eye_tilt_history :: "real list"
  last_twenty :: "real option"

section \<open>Time-bucketed aggregator\<close>

definition elapsed_since :: "real \<Rightarrow> real option \<Rightarrow> int" where
  \<comment> \<open>\<^verbatim>\<open>int(now - start) if start else 0\<close>\<close>
  "elapsed_since now start =
     (case start of None \<Rightarrow> 0 | Some v \<Rightarrow> if v \<noteq> 0 then py_int (now - v) else 0)"

definition total_visible :: "real \<Rightarrow> aggregator \<Rightarrow> int" where
  \<comment> \<open>line 2090, and \<^verbatim>\<open>_unsaved_visible_seconds\<close> line 800\<close>
  "total_visible now a = visible_seconds a + elapsed_since now (visible_start a)"

definition current_slouch_total :: "real \<Rightarrow> aggregator \<Rightarrow> int" where
  \<comment> \<open>line 2136, and \<^verbatim>\<open>_unsaved_slouch_seconds\<close> line 808\<close>
  "current_slouch_total now a = slouch_accum_seconds a + elapsed_since now (slouch_session_start a)"

definition unsaved_visible_seconds :: "real \<Rightarrow> aggregator \<Rightarrow> int" where
  \<comment> \<open>\<^verbatim>\<open>_unsaved_visible_seconds\<close>, lines 797-804\<close>
  "unsaved_visible_seconds now a = max 0 (total_visible now a - saved_visible_seconds a)"

definition unsaved_slouch_seconds :: "real \<Rightarrow> aggregator \<Rightarrow> int" where
  \<comment> \<open>\<^verbatim>\<open>_unsaved_slouch_seconds\<close>, lines 805-812\<close>
  "unsaved_slouch_seconds now a = max 0 (current_slouch_total now a - saved_slouch_seconds a)"

definition end_slouch :: "real \<Rightarrow> aggregator \<Rightarrow> aggregator" where
  \<comment> \<open>lines 2067-2069, 1908-1910 and 4167-4169\<close>
  "end_slouch now a =
     (case slouch_session_start a of
        None \<Rightarrow> a
      | Some v \<Rightarrow> a\<lparr>slouch_accum_seconds := slouch_accum_seconds a + py_int (now - v),
                     slouch_session_start := None\<rparr>)"

definition start_slouch :: "real \<Rightarrow> aggregator \<Rightarrow> aggregator" where
  \<comment> \<open>lines 1898-1899\<close>
  "start_slouch now a =
     (case slouch_session_start a of None \<Rightarrow> a\<lparr>slouch_session_start := Some now\<rparr> | Some v \<Rightarrow> a)"

definition track_presence :: "real \<Rightarrow> bool \<Rightarrow> aggregator \<Rightarrow> aggregator" where
  \<comment> \<open>lines 2060-2064, 2067-2069 and 2083-2089\<close>
  "track_presence now face_detected a =
     (if face_detected then
        (if \<not> truthy (visible_start a)
         then a\<lparr>visible_start := Some now, session_start := Some now,
                 session_count := session_count a + 1\<rparr>
         else a)
      else
        (let a1 = end_slouch now a
         in (case visible_start a1 of
               None \<Rightarrow> a1
             | Some v \<Rightarrow>
                 if v \<noteq> 0
                 then a1\<lparr>visible_seconds := visible_seconds a1 + py_int (now - v),
                          visible_start := None,
                          session_start := (if truthy (session_start a1) then None
                                            else session_start a1)\<rparr>
                 else a1)))"

definition account_visible :: "real \<Rightarrow> aggregator \<Rightarrow> aggregator" where
  \<comment> \<open>lines 2090-2094\<close>
  "account_visible now a =
     (let tv = total_visible now a;
          delta_visible = max 0 (tv - prev_total_visible a);
          a1 = (if delta_visible > 0
                then a\<lparr>pending_hour_visible_seconds := pending_hour_visible_seconds a + delta_visible\<rparr>
                else a)
      in a1\<lparr>prev_total_visible := tv\<rparr>)"

definition account_slouch :: "real \<Rightarrow> aggregator \<Rightarrow> aggregator" where
  \<comment> \<open>lines 2136-2140\<close>
  "account_slouch now a =
     (let cst = current_slouch_total now a;
          delta_slouch = max 0 (cst - prev_total_slouch a);
          a1 = (if delta_slouch > 0
                then a\<lparr>pending_hour_slouch_seconds := pending_hour_slouch_seconds a + delta_slouch\<rparr>
                else a)
      in a1\<lparr>prev_total_slouch := cst\<rparr>)"

definition buffer_append :: "real \<Rightarrow> real list \<Rightarrow> real list" where
  \<comment> \<open>lines 2214-2215: append, then drop the oldest sample beyond 600\<close>
  "buffer_append v b = (let b1 = b @ [v] in if length b1 > 600 then tl b1 else b1)"

definition record_distance_sample :: "real \<Rightarrow> session \<Rightarrow> session" where
  \<comment> \<open>lines 2211-2230\<close>
  "record_distance_sample sample_val s =
     (let a = agg s;
          a1 = a\<lparr>distances_buffer := buffer_append sample_val (distances_buffer a),
                 distance_sum_total := distance_sum_total a + sample_val,
                 distance_count_total := distance_count_total a + 1,
                 pending_distance_sum := pending_distance_sum a + sample_val,
                 pending_distance_count := pending_distance_count a + 1,
                 pending_hour_distance_sum := pending_hour_distance_sum a + sample_val,
                 pending_hour_distance_count := pending_hour_distance_count a + 1\<rparr>
      in s\<lparr>agg := a1,
            today := (if distance_count_total a1 > 0
                      then (today s)\<lparr>today_avg_cm :=
                              Some (distance_sum_total a1 / of_int (distance_count_total a1))\<rparr>
                      else today s)\<rparr>)"

subsection \<open>Hourly flush\<close>

definition hourly_visible_write :: "stmt set \<Rightarrow> string \<Rightarrow> aggregator \<Rightarrow> store \<Rightarrow> store + store" where
  \<comment> \<open>lines 2342-2349; \<open>Inl\<close>: the statement raised\<close>
  "hourly_visible_write F hour_key a st =
     (if pending_hour_visible_seconds a > 0 then
        if Select ScreenHourly \<in> F then Inl st
        else (let current_h_sec = fetch_int (screen_hourly (work st)) hour_key;
                  new_h_sec = current_h_sec + pending_hour_visible_seconds a
              in if Upsert ScreenHourly \<in> F then Inl st
                 else Inr (st\<lparr>work := (work st)\<lparr>screen_hourly :=
                                (screen_hourly (work st))(hour_key \<mapsto> new_h_sec)\<rparr>\<rparr>))
      else Inr st)"

definition hourly_slouch_write :: "stmt set \<Rightarrow> string \<Rightarrow> aggregator \<Rightarrow> store \<Rightarrow> store + store" where
  \<comment> \<open>lines 2350-2357\<close>
  "hourly_slouch_write F hour_key a st =
     (if pending_hour_slouch_seconds a > 0 then
        if Select PostureHourly \<in> F then Inl st
        else (let current_h_sec = fetch_int (posture_hourly (work st)) hour_key;
                  new_h_sec = current_h_sec + pending_hour_slouch_seconds a
              in if Upsert PostureHourly \<in> F then Inl st
                 else Inr (st\<lparr>work := (work st)\<lparr>posture_hourly :=
                                (posture_hourly (work st))(hour_key \<mapsto> new_h_sec)\<rparr>\<rparr>))
      else Inr st)"

definition hourly_distance_write :: "stmt set \<Rightarrow> string \<Rightarrow> aggregator \<Rightarrow> store \<Rightarrow> store + store" where
  \<comment> \<open>lines 2358-2368\<close>
  "hourly_distance_write F hour_key a st =
     (if pending_hour_distance_count a > 0 then
        if Select DistanceHourly \<in> F then Inl st
        else (let current_h_sum = fetch_real0 (distance_hourly (work st)) hour_key;
                  current_h_count = fetch_count1 (distance_hourly (work st)) hour_key;
                  new_h_sum = current_h_sum + pending_hour_distance_sum a;
                  new_h_count = current_h_count + pending_hour_distance_count a
              in if Upsert DistanceHourly \<in> F then Inl st
                 else Inr (st\<lparr>work := (work st)\<lparr>distance_hourly :=
                                (distance_hourly (work st))(hour_key \<mapsto> (Some new_h_sum, Some new_h_count))\<rparr>\<rparr>))
      else Inr st)"

definition reset_hourly :: "aggregator \<Rightarrow> aggregator" where
  \<comment> \<open>lines 2371-2377; the reset flags are the three conditions of lines 2342, 2350, 2358\<close>
  "reset_hourly a =
     (let a1 = (if pending_hour_visible_seconds a > 0
                then a\<lparr>pending_hour_visible_seconds := 0\<rparr> else a);
          a2 = (if pending_hour_slouch_seconds a > 0
                then a1\<lparr>pending_hour_slouch_seconds := 0\<rparr> else a1)
      in (if pending_hour_distance_count a > 0
          then a2\<lparr>pending_hour_distance_sum := 0, pending_hour_distance_count := 0\<rparr> else a2))"

definition flush_hourly_store ::
  "stmt set \<Rightarrow> string \<Rightarrow> bool \<Rightarrow> aggregator \<Rightarrow> store \<Rightarrow> bool \<times> aggregator \<times> store" where
  \<comment> \<open>\<^verbatim>\<open>_flush_hourly_metrics\<close>, lines 2340-2381: (returned flag, attributes, store)\<close>
  "flush_hourly_store F hour_key auto_commit a st =
     (let changed = (pending_hour_visible_seconds a > 0 \<or> pending_hour_slouch_seconds a > 0
                     \<or> pending_hour_distance_count a > 0)
      in (case hourly_visible_write F hour_key a st of
            Inl st1 \<Rightarrow> (False, a, st1)
          | Inr st1 \<Rightarrow>
         (case hourly_slouch_write F hour_key a st1 of
            Inl st2 \<Rightarrow> (False, a, st2)
          | Inr st2 \<Rightarrow>
         (case hourly_distance_write F hour_key a st2 of
            Inl st3 \<Rightarrow> (False, a, st3)
          | Inr st3 \<Rightarrow>
              if changed \<and> auto_commit then
                (if Commit \<in> F then (False, a, st3)
                 else (changed, reset_hourly a, commit st3))
              else (changed, reset_hourly a, st3)))))"

definition flush_hourly_metrics ::
  "stmt set \<Rightarrow> string option \<Rightarrow> bool \<Rightarrow> aggregator \<Rightarrow> store option
     \<Rightarrow> bool \<times> aggregator \<times> store option" where
  \<comment> \<open>\<^verbatim>\<open>_flush_hourly_metrics\<close>, lines 2336-2381\<close>
  "flush_hourly_metrics F hour_key auto_commit a db =
     (case db of
        None \<Rightarrow> (False, a, None)
      | Some st \<Rightarrow>
          (case hour_key of
             None \<Rightarrow> (False, a, Some st)
           | Some k \<Rightarrow>
               (case flush_hourly_store F k auto_commit a st of
                  (changed, a', st') \<Rightarrow> (changed, a', Some st'))))"

subsection \<open>Daily flush\<close>

text \<open>
  The three daily merges are written twice in the source, in \<^verbatim>\<open>_stats_worker\<close> and in
  \<^verbatim>\<open>_on_close\<close>. The copies differ only in that the periodic flush also refreshes the
  \<^verbatim>\<open>today_*\<close> attributes and \<^verbatim>\<open>last_save_time\<close>; \<open>periodic\<close> selects the copy.
\<close>

definition daily_screen_flush ::
  "stmt set \<Rightarrow> bool \<Rightarrow> string \<Rightarrow> int \<Rightarrow> session \<times> store
     \<Rightarrow> (session \<times> store) + (bool \<times> session \<times> store)" where
  \<comment> \<open>lines 2269-2278 and 4176-4184; \<open>Inl\<close>: a statement raised\<close>
  "daily_screen_flush F periodic today_str current_visible w =
     (case w of (s, st) \<Rightarrow>
        (let diff_visible = max 0 (current_visible - saved_visible_seconds (agg s))
         in if diff_visible > 0 then
              if Select ScreenTime \<in> F then Inl (s, st)
              else (let current_sec = fetch_int (screen_time (work st)) today_str;
                        new_sec = current_sec + diff_visible
                    in if Upsert ScreenTime \<in> F then Inl (s, st)
                       else Inr (True,
                                 s\<lparr>agg := (agg s)\<lparr>saved_visible_seconds := current_visible\<rparr>,
                                   today := (if periodic
                                             then (today s)\<lparr>today_screen_sec := new_sec\<rparr>
                                             else today s)\<rparr>,
                                 st\<lparr>work := (work st)\<lparr>screen_time :=
                                      (screen_time (work st))(today_str \<mapsto> new_sec)\<rparr>\<rparr>))
            else Inr (False, s, st)))"

definition daily_posture_flush ::
  "stmt set \<Rightarrow> bool \<Rightarrow> string \<Rightarrow> int \<Rightarrow> session \<times> store
     \<Rightarrow> (session \<times> store) + (bool \<times> session \<times> store)" where
  \<comment> \<open>lines 2279-2289 and 4185-4194\<close>
  "daily_posture_flush F periodic today_str current_slouch w =
     (case w of (s, st) \<Rightarrow>
        (let diff_slouch = max 0 (current_slouch - saved_slouch_seconds (agg s))
         in if diff_slouch > 0 then
              if Select PostureTime \<in> F then Inl (s, st)
              else (let current_sec = fetch_int (posture_time (work st)) today_str;
                        new_sec = current_sec + diff_slouch
                    in if Upsert PostureTime \<in> F then Inl (s, st)
                       else Inr (True,
                                 s\<lparr>agg := (agg s)\<lparr>saved_slouch_seconds := current_slouch\<rparr>,
                                   today := (if periodic
                                             then (today s)\<lparr>today_posture_sec := new_sec\<rparr>
                                             else today s)\<rparr>,
                                 st\<lparr>work := (work st)\<lparr>posture_time :=
                                      (posture_time (work st))(today_str \<mapsto> new_sec)\<rparr>\<rparr>))
            else Inr (False, s, st)))"

definition merge_average :: "real \<Rightarrow> int \<Rightarrow> real \<Rightarrow> int \<Rightarrow> real \<times> int" where
  \<comment> \<open>lines 2295-2298 and 4200-4203: (\<^verbatim>\<open>new_avg\<close>, \<^verbatim>\<open>new_total_count\<close>)\<close>
  "merge_average old_avg old_count pending_sum pending_count =
     (let old_sum = old_avg * of_int old_count;
          new_total_sum = old_sum + pending_sum;
          new_total_count = old_count + pending_count;
          new_avg = (if new_total_count > 0 then new_total_sum / of_int new_total_count else 0)
      in (new_avg, new_total_count))"

definition daily_distance_flush ::
  "stmt set \<Rightarrow> bool \<Rightarrow> string \<Rightarrow> session \<times> store
     \<Rightarrow> (session \<times> store) + (bool \<times> session \<times> store)" where
  \<comment> \<open>lines 2290-2307 and 4195-4210\<close>
  "daily_distance_flush F periodic today_str w =
     (case w of (s, st) \<Rightarrow>
        if enable_distance (cfg s) \<and> pending_distance_count (agg s) > 0 then
          if Select DistanceLog \<in> F then Inl (s, st)
          else (let old_avg = fetch_real0 (distance_log (work st)) today_str;
                    old_count = fetch_count1 (distance_log (work st)) today_str;
                    new_total_sum = old_avg * of_int old_count + pending_distance_sum (agg s);
                    new_avg = fst (merge_average old_avg old_count
                                     (pending_distance_sum (agg s)) (pending_distance_count (agg s)));
                    new_total_count = snd (merge_average old_avg old_count
                                     (pending_distance_sum (agg s)) (pending_distance_count (agg s)))
                in if Upsert DistanceLog \<in> F then Inl (s, st)
                   else Inr (True,
                             s\<lparr>agg := (agg s)\<lparr>distance_sum_total := new_total_sum,
                                               distance_count_total := new_total_count,
                                               pending_distance_sum := 0,
                                               pending_distance_count := 0\<rparr>,
                               today := (if periodic
                                         then (today s)\<lparr>today_avg_cm := Some new_avg,
                                                         today_distance_count := new_total_count\<rparr>
                                         else today s)\<rparr>,
                             st\<lparr>work := (work st)\<lparr>distance_log :=
                                  (distance_log (work st))(today_str \<mapsto> (Some new_avg, Some new_total_count))\<rparr>\<rparr>))
        else Inr (False, s, st))"

definition flush_daily ::
  "stmt set \<Rightarrow> bool \<Rightarrow> real \<Rightarrow> string \<Rightarrow> string \<Rightarrow> int \<Rightarrow> int \<Rightarrow> session \<times> store
     \<Rightarrow> session \<times> store" where
  \<comment> \<open>the \<^verbatim>\<open>try\<close> block of lines 2264-2325 (\<open>periodic\<close>) and of lines 4171-4217\<close>
  "flush_daily F periodic now today_str current_hour current_visible current_slouch w =
     (case daily_screen_flush F periodic today_str current_visible w of
        Inl w1 \<Rightarrow> w1
      | Inr (ch1, w1) \<Rightarrow>
     (case daily_posture_flush F periodic today_str current_slouch w1 of
        Inl w2 \<Rightarrow> w2
      | Inr (ch2, w2) \<Rightarrow>
     (case daily_distance_flush F periodic today_str w2 of
        Inl w3 \<Rightarrow> w3
      | Inr (ch3, s3, st3) \<Rightarrow>
     (case flush_hourly_store F current_hour False (agg s3) st3 of
        (hourly_changed, a4, st4) \<Rightarrow>
          if ch1 \<or> ch2 \<or> ch3 \<or> hourly_changed then
            (if Commit \<in> F then (s3\<lparr>agg := a4\<rparr>, st4)
             else (s3\<lparr>agg := (if periodic then a4\<lparr>last_save_time := now\<rparr> else a4)\<rparr>,
                   commit st4))
          else (s3\<lparr>agg := a4\<rparr>, st4)))))"

definition SAVE_INTERVAL_SEC :: real where
  "SAVE_INTERVAL_SEC = 15"

definition periodic_save ::
  "real \<Rightarrow> stmt set \<Rightarrow> real \<Rightarrow> string \<Rightarrow> string \<Rightarrow> int \<Rightarrow> int \<Rightarrow> session \<times> store option
     \<Rightarrow> session \<times> store option" where
  \<comment> \<open>lines 2263-2325; \<open>interval\<close> stands for the constant \<^verbatim>\<open>SAVE_INTERVAL_SEC\<close>\<close>
  "periodic_save interval F now today_str current_hour current_visible current_slouch w =
     (case w of (s, db) \<Rightarrow>
        (case db of
           None \<Rightarrow> (s, None)
         | Some st \<Rightarrow>
             if now - last_save_time (agg s) > interval
             then (case flush_daily F True now today_str current_hour current_visible
                          current_slouch (s, st) of (s', st') \<Rightarrow> (s', Some st'))
             else (s, Some st)))"

subsection \<open>Shutdown and data erase\<close>

definition on_close :: "stmt set \<Rightarrow> real \<Rightarrow> string \<Rightarrow> string \<Rightarrow> session \<times> store option
     \<Rightarrow> session \<times> store option" where
  \<comment> \<open>\<^verbatim>\<open>_on_close\<close>, lines 4160-4217\<close>
  "on_close F now today_str current_hour w =
     (case w of (s, db) \<Rightarrow>
        (let a = agg s;
             a1 = (case visible_start a of
                     None \<Rightarrow> a
                   | Some v \<Rightarrow> if v \<noteq> 0
                               then a\<lparr>visible_seconds := visible_seconds a + py_int (now - v),
                                      visible_start := None\<rparr>
                               else a);
             a2 = end_slouch now a1;
             s2 = s\<lparr>agg := a2\<rparr>
         in (case db of
               None \<Rightarrow> (s2, None)
             | Some st \<Rightarrow>
                 (case flush_daily F False now today_str current_hour (visible_seconds a2)
                         (slouch_accum_seconds a2) (s2, st) of (s', st') \<Rightarrow> (s', Some st')))))"

definition erase_tables :: "table list" where
  \<comment> \<open>lines 1224-1232\<close>
  "erase_tables =
     [Alerts, ScreenTime, PostureTime, DistanceLog, ScreenHourly, PostureHourly, DistanceHourly]"

fun delete_all :: "stmt set \<Rightarrow> table list \<Rightarrow> store \<Rightarrow> store + store" where
  \<comment> \<open>lines 1233-1234; \<open>Inl\<close>: a \<^verbatim>\<open>DELETE\<close> raised\<close>
  "delete_all F [] st = Inr st"
| "delete_all F (t # ts) st =
     (if Delete t \<in> F then Inl st
      else delete_all F ts (st\<lparr>work := delete_from t (work st)\<rparr>))"

definition reset_metrics :: "session \<Rightarrow> session" where
  \<comment> \<open>lines 1236-1260\<close>
  "reset_metrics s =
     s\<lparr>today := (today s)\<lparr>today_screen_sec := 0, today_posture_sec := 0, today_avg_cm := None,
                          today_distance_count := 0, today_posture_alerts := 0,
                          today_distance_alerts := 0, today_face_touch_alerts := 0,
                          session_posture_alerts := 0, session_distance_alerts := 0,
                          session_face_touch_alerts := 0\<rparr>,
       agg := (agg s)\<lparr>visible_seconds := 0, slouch_accum_seconds := 0,
                      saved_visible_seconds := 0, saved_slouch_seconds := 0,
                      pending_hour_visible_seconds := 0, pending_hour_slouch_seconds := 0,
                      pending_hour_distance_sum := 0, pending_hour_distance_count := 0,
                      pending_distance_sum := 0, pending_distance_count := 0,
                      distance_sum_total := 0, distance_count_total := 0,
                      distances_buffer := []\<rparr>,
       active_alerts := {}\<rparr>"

definition execute_data_erase :: "stmt set \<Rightarrow> session \<times> store option \<Rightarrow> session \<times> store option" where
  \<comment> \<open>\<^verbatim>\<open>_execute_data_erase\<close>, lines 1221-1278\<close>
  "execute_data_erase F w =
     (case w of (s, db) \<Rightarrow>
        (case db of
           None \<Rightarrow> (reset_metrics s, None)
         | Some st \<Rightarrow>
             (case delete_all F erase_tables st of
                Inl st1 \<Rightarrow> (s, Some st1)
              | Inr st1 \<Rightarrow>
                  if Commit \<in> F then (s, Some st1)
                  else (reset_metrics s, Some (commit st1)))))"

subsection \<open>Start-up\<close>

definition initial_aggregator :: "real \<Rightarrow> aggregator" where
  \<comment> \<open>lines 294-297, 303-305, 337-338, 354-364; \<open>now\<close> is \<^verbatim>\<open>time.time()\<close> of line 303\<close>
  "initial_aggregator now =
     \<lparr>visible_start = None, visible_seconds = 0, slouch_session_start = None,
      slouch_accum_seconds = 0, saved_visible_seconds = 0, saved_slouch_seconds = 0,
      pending_hour_visible_seconds = 0, pending_hour_slouch_seconds = 0,
      pending_hour_distance_sum = 0, pending_hour_distance_count = 0,
      pending_distance_sum = 0, pending_distance_count = 0,
      distance_sum_total = 0, distance_count_total = 0, distances_buffer = [],
      prev_total_visible = 0, prev_total_slouch = 0, last_save_time = now,
      last_hour = None, session_start = None, session_count = 0\<rparr>"

definition initial_timers :: alert_timers where
  \<comment> \<open>lines 300-302, 327-328, 365-369; the attributes created on first use are absent\<close>
  "initial_timers =
     \<lparr>body_turned_start = None, body_turned_active_since = None, body_turned_notified = None,
      posture_start = None, posture_active_since = None, posture_notified = None,
      partial_start = None, partial_active_since = None, partial_notified = None,
      too_close_start = None, too_close_active_since = None,
      nail_biting_start = None, nail_active_since = None, nail_biting_detected = False,
      face_touch_start = None, face_touch_active_since = None, face_touch_detected = False,
      head_turn_start = None, head_turn_duration = 0, posture_reasons = [],
      partial_missing_count = 0, fully_missing_count = 0\<rparr>"

definition initial_session ::
  "settings \<Rightarrow> real \<Rightarrow> string \<Rightarrow> int \<times> int \<times> int \<Rightarrow> store option \<Rightarrow> session" where
  \<comment> \<open>\<^verbatim>\<open>__init__\<close>, lines 287-410. \<open>counts\<close> are the results of the three
      \<^verbatim>\<open>SELECT count(*) FROM alerts ... LIKE ...\<close> queries of lines 398-403.\<close>
  "initial_session c now today_str counts db =
     (let t0 = \<lparr>today_screen_sec = 0, today_posture_sec = 0, today_avg_cm = None,
                 today_distance_count = 0, today_posture_alerts = 0, today_distance_alerts = 0,
                 today_face_touch_alerts = 0, session_posture_alerts = 0,
                 session_distance_alerts = 0, session_face_touch_alerts = 0\<rparr>;
          t1 = (case db of
                  None \<Rightarrow> t0
                | Some st \<Rightarrow>
                    t0\<lparr>today_screen_sec := fetch_int (screen_time (work st)) today_str,
                       today_posture_sec := fetch_int (posture_time (work st)) today_str,
                       today_avg_cm := (case distance_log (work st) today_str of
                                          None \<Rightarrow> None | Some (a, n) \<Rightarrow> a),
                       today_distance_count := fetch_count1 (distance_log (work st)) today_str,
                       today_posture_alerts := fst counts,
                       today_distance_alerts := fst (snd counts),
                       today_face_touch_alerts := snd (snd counts)\<rparr>);
          base_avg = (case today_avg_cm t1 of None \<Rightarrow> 0 | Some v \<Rightarrow> v)
      in \<lparr>agg = (initial_aggregator now)
                  \<lparr>distance_sum_total := base_avg * of_int (max (today_distance_count t1) 0),
                   distance_count_total := max (today_distance_count t1) 0\<rparr>,
          today = t1, timers = initial_timers, active_alerts = {}, cfg = c,
          smoothed_distance_cm = None, depth_baseline = None,
          horizontal_offset_history = [], eye_tilt_history = [], last_twenty = None\<rparr>)"

definition empty_store :: store where
  "empty_store = \<lparr>work = empty_tables, durable = empty_tables\<rparr>"

subsection \<open>Reference notions of the specification\<close>

definition mean :: "real list \<Rightarrow> real" where
  \<comment> \<open>the arithmetic mean of a sample list\<close>
  "mean xs = sum_list xs / of_nat (length xs)"

definition fresh_session :: session where
  \<comment> \<open>a session started at time 1000 on an empty database, default settings\<close>
  "fresh_session = initial_session default_settings 1000 ''2024-05-01'' (0, 0, 0) (Some empty_store)"

definition distance_session :: session where
  \<comment> \<open>a session holding the two pending samples 60 and 80\<close>
  "distance_session =
     fresh_session\<lparr>agg := (agg fresh_session)\<lparr>pending_distance_sum := 140,
                                                pending_distance_count := 2\<rparr>\<rparr>"

definition distance_store :: store where
  \<comment> \<open>a database whose record of the day holds the mean of the samples 40 and 60\<close>
  "distance_store =
     empty_store\<lparr>work := empty_tables\<lparr>distance_log := [''2024-05-01'' \<mapsto> (Some 50, Some 2)]\<rparr>\<rparr>"

section \<open>Posture and behaviour classifier\<close>

text \<open>
  \<^verbatim>\<open>_compute_posture_flags\<close>, lines 1702-1821. Pixel positions taken from landmarks are
  ints, the shoulder midpoint and the eye boxes are floats. The function reads
  \<^verbatim>\<open>self.last_eyes\<close> and \<^verbatim>\<open>self.last_face_box\<close>, which the capture loop maintains; they
  are part of the observation here. The whole body runs under \<^verbatim>\<open>try\<close>: an exception
  gives all flags false and an empty diagnostics dictionary.
\<close>

type_synonym ipoint = "int \<times> int"
type_synonym rpoint = "real \<times> real"
type_synonym ibox = "int \<times> int \<times> int \<times> int"
type_synonym rbox = "real \<times> real \<times> real \<times> real"
type_synonym landmark = "real \<times> real \<times> real"

datatype py_exn = TypeError | IndexError | AttributeError

record posture_flags =
  vertical_bad :: bool
  depth_bad :: bool
  eye_tilt_bad :: bool
  head_twist_bad :: bool
  neck_short_bad :: bool
  body_turned :: bool
  horizontal_offset_bad :: bool
  nail_biting :: bool
  face_touch :: bool

record diagnostics =
  shoulder_span :: "real option"
  shoulder_angle :: "real option"
  shoulder_face_ratio :: "real option"
  vertical_ratio :: "real option option"
  depth_ratio :: "real option"
  diag_depth_baseline :: "real option"
  eye_tilt_norm :: "real option"
  eye_tilt_angle :: "real option"
  eye_vertical_diff_norm :: "real option"
  head_twist_deg :: "real option"
  neck_len :: "real option"
  horizontal_offset_norm :: "real option option"
  reason :: "string option"

record frame_obs =
  nose_px :: "ipoint option"
  head_center_px :: "ipoint option"
  shoulder_mid_px :: "rpoint option"
  detected_shoulders :: "(ipoint \<times> ipoint) option"
  face_width_px :: "int option"
  mouth_box :: "ibox option"
  face_box :: "ibox option"
  hand_landmarks :: "landmark list list option"
  image_size :: "(int \<times> int) option"
  last_eyes :: "rbox list"
  last_face_box :: "ibox option"

definition no_flags :: posture_flags where
  "no_flags =
     \<lparr>vertical_bad = False, depth_bad = False, eye_tilt_bad = False, head_twist_bad = False,
      neck_short_bad = False, body_turned = False, horizontal_offset_bad = False,
      nail_biting = False, face_touch = False\<rparr>"

definition empty_diag :: diagnostics where
  "empty_diag =
     \<lparr>shoulder_span = None, shoulder_angle = None, shoulder_face_ratio = None,
      vertical_ratio = None, depth_ratio = None, diag_depth_baseline = None,
      eye_tilt_norm = None, eye_tilt_angle = None, eye_vertical_diff_norm = None,
      head_twist_deg = None, neck_len = None, horizontal_offset_norm = None, reason = None\<rparr>"

definition eps :: real where
  \<comment> \<open>the constant \<^verbatim>\<open>1e-6\<close>\<close>
  "eps = 1 / 1000000"

definition atan2 :: "real \<Rightarrow> real \<Rightarrow> real" where
  \<comment> \<open>\<^verbatim>\<open>math.atan2(y, x)\<close>, signed zeros apart\<close>
  "atan2 y x =
     (if 0 < x then arctan (y / x)
      else if x < 0 then (if 0 \<le> y then arctan (y / x) + pi else arctan (y / x) - pi)
      else if 0 < y then pi / 2
      else if y < 0 then - pi / 2
      else 0)"

definition degrees :: "real \<Rightarrow> real" where
  \<comment> \<open>\<^verbatim>\<open>math.degrees\<close>\<close>
  "degrees r = r * 180 / pi"

definition shoulder_geometry :: "frame_obs \<Rightarrow> real \<Rightarrow> real \<times> real" where
  \<comment> \<open>lines 1713-1721: (\<^verbatim>\<open>shoulder_span\<close>, \<^verbatim>\<open>shoulder_angle\<close>)\<close>
  "shoulder_geometry f fw =
     (case detected_shoulders f of
        Some (ls, rs) \<Rightarrow>
          (sqrt ((of_int (fst ls) - of_int (fst rs))\<^sup>2 + (of_int (snd ls) - of_int (snd rs))\<^sup>2),
           degrees (atan2 (of_int (snd rs - snd ls)) (of_int (fst rs - fst ls))))
      | None \<Rightarrow> (max 1.0 (fw * 1.6), 0))"

definition eye_geometry :: "rbox list \<Rightarrow> real \<Rightarrow> real \<times> real \<times> real" where
  \<comment> \<open>lines 1741-1757: (\<^verbatim>\<open>eye_tilt_norm\<close>, \<^verbatim>\<open>eye_tilt_angle\<close>, \<^verbatim>\<open>eye_vertical_diff\<close>)\<close>
  "eye_geometry eyes fw =
     (case eyes of
        (l0, l1, l2, l3) # (r0, r1, r2, r3) # rest \<Rightarrow>
          (let lx = l0 + l2 / 2; ly = l1 + l3 / 2;
               rx = r0 + r2 / 2; ry = r1 + r3 / 2;
               dy = ry - ly; dx = rx - lx
           in (\<bar>dy\<bar> / (fw * 1.25 + eps), degrees (atan2 dy dx), \<bar>dy\<bar>))
      | _ \<Rightarrow> (0, 0, 0))"

definition FINGERTIP_IDX :: "nat list" where
  "FINGERTIP_IDX = [4, 8, 12, 16, 20]"

definition NAIL_BITING_DEPTH_THRESH :: real where
  "NAIL_BITING_DEPTH_THRESH = 0.1"

definition NAIL_CONTACT_MARGIN :: int where
  "NAIL_CONTACT_MARGIN = 4"

definition FACE_TOUCH_MARGIN :: int where
  "FACE_TOUCH_MARGIN = 6"

definition near_mouth :: "ibox \<Rightarrow> int \<Rightarrow> int \<Rightarrow> real \<Rightarrow> bool" where
  \<comment> \<open>lines 1790-1793\<close>
  "near_mouth b px py z =
     (case b of (mx, my, mw, mh) \<Rightarrow>
        mx - NAIL_CONTACT_MARGIN \<le> px \<and> px \<le> mx + mw + NAIL_CONTACT_MARGIN
        \<and> my - NAIL_CONTACT_MARGIN \<le> py \<and> py \<le> my + mh + NAIL_CONTACT_MARGIN
        \<and> z < NAIL_BITING_DEPTH_THRESH)"

definition inside_face :: "ibox \<Rightarrow> int \<Rightarrow> int \<Rightarrow> real \<Rightarrow> bool" where
  \<comment> \<open>lines 1798-1801\<close>
  "inside_face b px py z =
     (case b of (fx0, fy0, fw0, fh0) \<Rightarrow>
        fx0 + FACE_TOUCH_MARGIN \<le> px \<and> px \<le> fx0 + fw0 - FACE_TOUCH_MARGIN
        \<and> fy0 + FACE_TOUCH_MARGIN \<le> py \<and> py \<le> fy0 + fh0 - FACE_TOUCH_MARGIN
        \<and> z < NAIL_BITING_DEPTH_THRESH)"

fun scan_fingertips ::
  "settings \<Rightarrow> ibox option \<Rightarrow> ibox option \<Rightarrow> int \<times> int \<Rightarrow> landmark list \<Rightarrow> nat list
     \<Rightarrow> bool \<times> bool \<Rightarrow> py_exn + bool \<times> bool" where
  \<comment> \<open>the inner loop of lines 1785-1803 over one hand: (\<^verbatim>\<open>nail_biting\<close>, \<^verbatim>\<open>face_touch\<close>)\<close>
  "scan_fingertips c mouth face_reference img hand [] fl = Inr fl"
| "scan_fingertips c mouth face_reference img hand (i # rest) fl =
     (if length hand \<le> i then Inl IndexError
      else (case hand ! i of (x, y, z) \<Rightarrow>
        (let px = py_int (x * of_int (fst img)); py = py_int (y * of_int (snd img))
         in if enable_nail_biting c \<and> (case mouth of None \<Rightarrow> False | Some b \<Rightarrow> near_mouth b px py z)
            then Inr (True, snd fl)
            else if enable_face_touch c
                    \<and> (case face_reference of None \<Rightarrow> False | Some b \<Rightarrow> inside_face b px py z)
            then Inr (fst fl, True)
            else scan_fingertips c mouth face_reference img hand rest fl)))"

fun scan_hands ::
  "settings \<Rightarrow> ibox option \<Rightarrow> ibox option \<Rightarrow> int \<times> int \<Rightarrow> landmark list list
     \<Rightarrow> bool \<times> bool \<Rightarrow> py_exn + bool \<times> bool" where
  \<comment> \<open>the outer loop of lines 1784-1805\<close>
  "scan_hands c mouth face_reference img [] fl = Inr fl"
| "scan_hands c mouth face_reference img (hand # rest) fl =
     (case scan_fingertips c mouth face_reference img hand FINGERTIP_IDX fl of
        Inl e \<Rightarrow> Inl e
      | Inr fl1 \<Rightarrow>
          if fst fl1 \<and> snd fl1 then Inr fl1
          else scan_hands c mouth face_reference img rest fl1)"

definition contact_flags :: "settings \<Rightarrow> frame_obs \<Rightarrow> py_exn + bool \<times> bool" where
  \<comment> \<open>lines 1782-1805\<close>
  "contact_flags c f =
     (case (hand_landmarks f, image_size f) of
        (Some hands, Some (img_w, img_h)) \<Rightarrow>
          if (enable_nail_biting c \<or> enable_face_touch c) \<and> hands \<noteq> [] \<and> img_w \<noteq> 0 \<and> img_h \<noteq> 0
          then scan_hands c (mouth_box f)
                 (case face_box f of Some b \<Rightarrow> Some b | None \<Rightarrow> last_face_box f)
                 (img_w, img_h) hands (False, False)
          else Inr (False, False)
      | _ \<Rightarrow> Inr (False, False))"

definition classify_geometry ::
  "settings \<Rightarrow> real option \<Rightarrow> frame_obs
     \<Rightarrow> real option \<times> (py_exn + posture_flags \<times> diagnostics \<times> real) option" where
  \<comment> \<open>lines 1704-1805: the new \<^verbatim>\<open>_depth_baseline\<close>, and \<open>None\<close> for the early returns of
      lines 1707-1712, \<open>Inl\<close> for an exception, \<open>Inr\<close> for the flags before the suppression
      step together with the diagnostics and \<^verbatim>\<open>shoulder_angle\<close>\<close>
  "classify_geometry c baseline f =
     (case face_width_px f of
        None \<Rightarrow> (baseline, None)
      | Some fwi \<Rightarrow>
     if fwi = 0 \<or> fwi \<le> 1 then (baseline, None)
     else
     (case (case head_center_px f of Some h \<Rightarrow> Some h | None \<Rightarrow> nose_px f) of
        None \<Rightarrow> (baseline, None)
      | Some (hxi, hyi) \<Rightarrow>
     (let fw = real_of_int fwi; hx = real_of_int hxi; hy = real_of_int hyi;
          span = fst (shoulder_geometry f fw);
          angle = snd (shoulder_geometry f fw);
          ratio = span / (fw + eps);
          turned = (ratio < 1.15 * 0.78);
          vr = (case shoulder_mid_px f of
                  None \<Rightarrow> None
                | Some (smx, smy) \<Rightarrow> Some ((smy - hy) / (fw * 1.25 + eps)));
          v_bad = (case vr of None \<Rightarrow> False | Some v \<Rightarrow> v < posture_vert_thresh c);
          dr = fw / (span + eps);
          baseline' = (case baseline of None \<Rightarrow> dr | Some b \<Rightarrow> 0.08 * dr + (1 - 0.08) * b);
          d_bad = (dr > baseline' * posture_depth_thresh c);
          etn = fst (eye_geometry (last_eyes f) fw);
          eta = fst (snd (eye_geometry (last_eyes f) fw));
          evd = snd (snd (eye_geometry (last_eyes f) fw));
          evdn = evd / (fw + eps);
          neutral_tilt = (case calib_neutral (calib c) of
                            None \<Rightarrow> 0 | Some n \<Rightarrow> neutral_eye_tilt_angle n);
          twist = \<bar>eta - neutral_tilt\<bar>;
          et_bad = ((etn > posture_eye_tilt_thresh c \<or> twist > 10) \<or> evdn > 0.05);
          ht_bad = (twist > 12);
          neck = (case (nose_px f, shoulder_mid_px f) of
                    (Some (nx, ny), Some (smx, smy)) \<Rightarrow>
                       Some ((smy - real_of_int ny) / (fw * 1.25 + eps))
                  | _ \<Rightarrow> vr)
      in (case neck of
            None \<Rightarrow> (Some baseline', Some (Inl TypeError))
          | Some nl \<Rightarrow>
         (let hon = (case shoulder_mid_px f of
                       None \<Rightarrow> None
                     | Some (smx, smy) \<Rightarrow>
                         if hx \<noteq> 0 then Some (\<bar>hx - smx\<bar> / (fw + eps)) else None);
              ho_bad = (case hon of None \<Rightarrow> False | Some h \<Rightarrow> h > 0.15 \<and> \<not> turned)
          in (case contact_flags c f of
                Inl e \<Rightarrow> (Some baseline', Some (Inl e))
              | Inr (nb, ft) \<Rightarrow>
                  (Some baseline',
                   Some (Inr (\<lparr>vertical_bad = v_bad, depth_bad = d_bad, eye_tilt_bad = et_bad,
                               head_twist_bad = ht_bad,
                               neck_short_bad = ((1.0 - nl) > posture_neck_thresh c),
                               body_turned = turned, horizontal_offset_bad = ho_bad,
                               nail_biting = nb, face_touch = ft\<rparr>,
                              \<lparr>shoulder_span = Some span, shoulder_angle = Some angle,
                               shoulder_face_ratio = Some ratio, vertical_ratio = Some vr,
                               depth_ratio = Some dr, diag_depth_baseline = Some baseline',
                               eye_tilt_norm = Some etn, eye_tilt_angle = Some eta,
                               eye_vertical_diff_norm = Some evdn, head_twist_deg = Some twist,
                               neck_len = Some nl, horizontal_offset_norm = Some hon,
                               reason = None\<rparr>,
                              angle)))))))))"

definition suppress_turned :: "posture_flags \<times> diagnostics \<times> real \<Rightarrow> posture_flags \<times> diagnostics" where
  \<comment> \<open>lines 1806-1818\<close>
  "suppress_turned r =
     (case r of (flags, diag, angle) \<Rightarrow>
        if body_turned flags
        then (flags\<lparr>eye_tilt_bad := False, head_twist_bad := False, vertical_bad := False,
                     depth_bad := False, neck_short_bad := False, horizontal_offset_bad := False\<rparr>,
              diag\<lparr>reason := Some ''body_turned suppress posture health alerts''\<rparr>)
        else if \<bar>angle\<bar> > 15 then (flags\<lparr>eye_tilt_bad := False\<rparr>, diag)
        else (flags, diag))"

definition compute_posture_flags ::
  "settings \<Rightarrow> real option \<Rightarrow> frame_obs \<Rightarrow> (posture_flags \<times> diagnostics) \<times> real option" where
  \<comment> \<open>\<^verbatim>\<open>_compute_posture_flags\<close>, lines 1702-1821: the returned pair and the new
      \<^verbatim>\<open>_depth_baseline\<close>\<close>
  "compute_posture_flags c baseline f =
     (case classify_geometry c baseline f of
        (baseline', None) \<Rightarrow> ((no_flags, empty_diag), baseline')
      | (baseline', Some (Inl e)) \<Rightarrow> ((no_flags, empty_diag), baseline')
      | (baseline', Some (Inr r)) \<Rightarrow> (suppress_turned r, baseline'))"

definition raw_flags :: "settings \<Rightarrow> real option \<Rightarrow> frame_obs \<Rightarrow> posture_flags option" where
  \<comment> \<open>the flags as computed by lines 1703-1805, before the suppression step, when the
      computation gets there\<close>
  "raw_flags c baseline f =
     (case snd (classify_geometry c baseline f) of
        Some (Inr (flags, diag, angle)) \<Rightarrow> Some flags
      | _ \<Rightarrow> None)"

definition turned_frame :: frame_obs where
  \<comment> \<open>a face 100 px wide over shoulders 50 px apart, with a fingertip at the mouth\<close>
  "turned_frame =
     \<lparr>nose_px = Some (320, 200), head_center_px = Some (320, 200),
      shoulder_mid_px = Some (325, 250),
      detected_shoulders = Some ((300, 250), (350, 250)),
      face_width_px = Some 100, mouth_box = Some (300, 230, 40, 20),
      face_box = Some (270, 150, 100, 130),
      hand_landmarks = Some [replicate 21 (1 / 2, 1 / 2, 0)],
      image_size = Some (640, 480), last_eyes = [], last_face_box = None\<rparr>"

section \<open>Alert state machines\<close>

text \<open>
  Each alert category keeps its own timer attributes. A step returns the external effects
  it asks for: \<open>Notify\<close> is a call of \<^verbatim>\<open>notify_os(title, message)\<close>, \<open>EmitAlert\<close> a call of
  \<^verbatim>\<open>_emit_alert(message)\<close>, whose row is written to the store by the caller in the same
  order. \<^verbatim>\<open>_update_posture_state\<close> runs under one \<^verbatim>\<open>try\<close>: a step that raises keeps what
  was done before and skips the rest (\<open>Inl\<close>). \<^verbatim>\<open>posture_reasons\<close> is a Python set whose
  order of iteration is not fixed; it is kept here in order of insertion.
\<close>

datatype effect = Notify string string | EmitAlert string

definition NAIL_BITING_DURATION :: real where
  "NAIL_BITING_DURATION = 5"

definition FACE_TOUCH_DURATION :: real where
  "FACE_TOUCH_DURATION = 3"

definition FACE_TOUCH_COOLDOWN :: real where
  "FACE_TOUCH_COOLDOWN = 60"

definition TWENTY_TWENTY_SEC :: real where
  "TWENTY_TWENTY_SEC = 1200"

definition notify_after :: "settings \<Rightarrow> real" where
  \<comment> \<open>\<^verbatim>\<open>max(1, self.delay_seconds)\<close>\<close>
  "notify_after c = of_int (max 1 (delay_seconds c))"

definition add_reason :: "string \<Rightarrow> string list \<Rightarrow> string list" where
  "add_reason r rs = (if r \<in> set rs then rs else rs @ [r])"

fun join_reasons :: "string list \<Rightarrow> string" where
  \<comment> \<open>\<^verbatim>\<open>", ".join(...)\<close>\<close>
  "join_reasons [] = []"
| "join_reasons [r] = r"
| "join_reasons (r # rs) = r @ '', '' @ join_reasons rs"

definition body_turned_lane ::
  "real \<Rightarrow> bool \<Rightarrow> session \<times> effect list \<Rightarrow> (session \<times> effect list) + (session \<times> effect list)" where
  \<comment> \<open>lines 1826-1849\<close>
  "body_turned_lane now cond w =
     (case w of (s, out) \<Rightarrow>
        (let t = timers s; label = ''Off Task - Body Turned'' in
         if cond then
           (case (if body_turned_start t = None
                  then Inr (s\<lparr>timers := t\<lparr>body_turned_start := Some now,
                                            body_turned_active_since := Some now\<rparr>\<rparr>)
                  else (case body_turned_active_since t of
                          None \<Rightarrow> Inl s
                        | Some a \<Rightarrow>
                            if now - a \<ge> active_alert_appear_seconds (cfg s)
                            then Inr (s\<lparr>active_alerts := insert label (active_alerts s)\<rparr>)
                            else Inr s)) of
              Inl s1 \<Rightarrow> Inl (s1, out)
            | Inr s1 \<Rightarrow>
                if \<not> dict_get (body_turned_notified (timers s1)) False
                   \<and> now - dict_get (body_turned_start (timers s1)) now \<ge> notify_after (cfg s1)
                then Inr (s1\<lparr>timers := (timers s1)\<lparr>body_turned_notified := Some True\<rparr>\<rparr>,
                          out @ [Notify ''Off Task'' ''Body turned away from screen.'',
                                 EmitAlert label])
                else Inr (s1, out))
         else Inr (s\<lparr>timers := t\<lparr>body_turned_start := None, body_turned_active_since := None,
                                   body_turned_notified := None\<rparr>,
                     active_alerts := active_alerts s - {label}\<rparr>, out)))"

definition flag_reasons :: "posture_flags \<Rightarrow> string list" where
  \<comment> \<open>lines 1851-1865, in the order of \<^verbatim>\<open>category_map\<close>\<close>
  "flag_reasons flags =
     (let r1 = (if vertical_bad flags then add_reason ''Sit up straight'' [] else []);
          r2 = (if depth_bad flags then add_reason ''Lean back'' r1 else r1);
          r3 = (if eye_tilt_bad flags then add_reason ''Straighten your head'' r2 else r2);
          r4 = (if head_twist_bad flags then add_reason ''Level your head'' r3 else r3);
          r5 = (if neck_short_bad flags then add_reason ''Straighten your neck'' r4 else r4)
      in (if horizontal_offset_bad flags then add_reason ''Straighten your neck'' r5 else r5))"

definition posture_condition :: "real \<Rightarrow> posture_flags \<Rightarrow> session \<Rightarrow> bool \<times> session" where
  \<comment> \<open>lines 1850-1881: the condition of the Bad Posture category, with the reasons and the
      head-turn clock updated\<close>
  "posture_condition now flags s =
     (let t = timers s;
          detected = (vertical_bad flags \<or> depth_bad flags \<or> eye_tilt_bad flags
                      \<or> head_twist_bad flags \<or> neck_short_bad flags \<or> horizontal_offset_bad flags);
          body_turn = body_turned flags;
          components = (eye_tilt_bad flags \<or> head_twist_bad flags \<or> horizontal_offset_bad flags)
      in if components \<and> \<not> body_turn then
           (let start = (case head_turn_start t of None \<Rightarrow> now | Some v \<Rightarrow> v);
                duration = now - start;
                head_turn_bad = (duration > 30)
            in ((detected \<or> head_turn_bad) \<and> (\<not> body_turn \<or> head_turn_bad),
                s\<lparr>timers := t\<lparr>head_turn_start := Some start, head_turn_duration := duration,
                                posture_reasons := (if head_turn_bad
                                                    then add_reason ''Face forward'' (flag_reasons flags)
                                                    else flag_reasons flags)\<rparr>\<rparr>))
         else (detected \<and> \<not> body_turn,
               s\<lparr>timers := t\<lparr>head_turn_start := None, head_turn_duration := 0,
                               posture_reasons := flag_reasons flags\<rparr>\<rparr>))"

definition clear_posture_timers :: "alert_timers \<Rightarrow> alert_timers" where
  \<comment> \<open>lines 1901-1904 and 2070-2075\<close>
  "clear_posture_timers t =
     t\<lparr>posture_start := None, posture_active_since := None, posture_notified := None\<rparr>"

definition posture_lane ::
  "real \<Rightarrow> bool \<Rightarrow> session \<times> effect list \<Rightarrow> (session \<times> effect list) + (session \<times> effect list)" where
  \<comment> \<open>lines 1880-1910\<close>
  "posture_lane now cond w =
     (case w of (s, out) \<Rightarrow>
        (let t = timers s; label = ''Bad Posture'' in
         if cond then
           (case (if posture_start t = None
                  then Inr (s\<lparr>timers := t\<lparr>posture_start := Some now,
                                            posture_active_since := Some now\<rparr>\<rparr>)
                  else (case posture_active_since t of
                          None \<Rightarrow> Inl s
                        | Some a \<Rightarrow>
                            if now - a \<ge> active_alert_appear_seconds (cfg s)
                            then Inr (s\<lparr>active_alerts := insert label (active_alerts s)\<rparr>)
                            else Inr s)) of
              Inl s1 \<Rightarrow> Inl (s1, out)
            | Inr s1 \<Rightarrow>
                (let fire = (\<not> dict_get (posture_notified (timers s1)) False
                             \<and> now - the (posture_start (timers s1)) \<ge> notify_after (cfg s1));
                     reasons_str = join_reasons (posture_reasons (timers s1));
                     s2 = (if fire
                           then s1\<lparr>timers := (timers s1)\<lparr>posture_notified := Some True\<rparr>,
                                   today := (today s1)\<lparr>today_posture_alerts :=
                                                           today_posture_alerts (today s1) + 1,
                                                         session_posture_alerts :=
                                                           session_posture_alerts (today s1) + 1\<rparr>\<rparr>
                           else s1);
                     out2 = (if fire
                             then out @ [Notify ''Bad Posture'' reasons_str,
                                         EmitAlert (''Bad Posture - '' @ reasons_str)]
                             else out)
                 in Inr (s2\<lparr>agg := start_slouch now (agg s2)\<rparr>, out2)))
         else Inr (s\<lparr>timers := clear_posture_timers t,
                     active_alerts := active_alerts s - {label},
                     agg := end_slouch now (agg s)\<rparr>, out)))"

definition nail_biting_lane ::
  "real \<Rightarrow> bool \<Rightarrow> session \<times> effect list \<Rightarrow> session \<times> effect list" where
  \<comment> \<open>lines 1911-1933\<close>
  "nail_biting_lane now flag w =
     (case w of (s, out) \<Rightarrow>
        (let t = timers s; label = ''Nail Biting Detected'' in
         if enable_nail_biting (cfg s) \<and> flag then
           (let start = (case nail_biting_start t of None \<Rightarrow> now | Some v \<Rightarrow> v);
                fire = (now - start \<ge> NAIL_BITING_DURATION);
                t1 = t\<lparr>nail_biting_detected := True,
                       nail_active_since := (case nail_active_since t of
                                               None \<Rightarrow> Some now | Some v \<Rightarrow> Some v),
                       nail_biting_start := (if fire then Some (now + 60) else Some start)\<rparr>
            in (s\<lparr>timers := t1, active_alerts := insert label (active_alerts s)\<rparr>,
                if fire
                then out @ [Notify ''Nail Biting Detected'' ''Stop biting your nails.'',
                            EmitAlert label]
                else out))
         else (s\<lparr>timers := t\<lparr>nail_biting_detected := False, nail_biting_start := None,
                                nail_active_since := None\<rparr>,
                  active_alerts := active_alerts s - {label}\<rparr>, out)))"

definition face_touch_lane ::
  "real \<Rightarrow> bool \<Rightarrow> session \<times> effect list \<Rightarrow> session \<times> effect list" where
  \<comment> \<open>lines 1934-1958\<close>
  "face_touch_lane now flag w =
     (case w of (s, out) \<Rightarrow>
        (let t = timers s; label = ''Face Touch Detected'' in
         if enable_face_touch (cfg s) \<and> flag then
           (let start = (case face_touch_start t of
                           None \<Rightarrow> now
                         | Some v \<Rightarrow> if v \<le> now then now else v);
                fire = (now - start \<ge> FACE_TOUCH_DURATION);
                t1 = t\<lparr>face_touch_detected := True,
                       face_touch_active_since := (case face_touch_active_since t of
                                                     None \<Rightarrow> Some now | Some v \<Rightarrow> Some v),
                       face_touch_start := (if fire then Some (now + FACE_TOUCH_COOLDOWN)
                                            else Some start)\<rparr>
            in (s\<lparr>timers := t1, active_alerts := insert label (active_alerts s),
                  today := (if fire
                            then (today s)\<lparr>today_face_touch_alerts :=
                                              today_face_touch_alerts (today s) + 1,
                                            session_face_touch_alerts :=
                                              session_face_touch_alerts (today s) + 1\<rparr>
                            else today s)\<rparr>,
                if fire
                then out @ [Notify ''Face Touch Detected'' ''Avoid touching your face.'',
                            EmitAlert label]
                else out))
         else (s\<lparr>timers := t\<lparr>face_touch_detected := False, face_touch_active_since := None,
                                face_touch_start := None\<rparr>,
                  active_alerts := active_alerts s - {label}\<rparr>, out)))"

definition update_posture_state :: "real \<Rightarrow> posture_flags \<Rightarrow> session \<Rightarrow> session \<times> effect list" where
  \<comment> \<open>\<^verbatim>\<open>_update_posture_state\<close>, lines 1822-1962; \<open>now\<close> is \<^verbatim>\<open>time.time()\<close> of line 1824\<close>
  "update_posture_state now flags s =
     (case body_turned_lane now (body_turned flags) (s, []) of
        Inl w1 \<Rightarrow> w1
      | Inr (s1, out1) \<Rightarrow>
          (case posture_condition now flags s1 of
             (cond, s2) \<Rightarrow>
               (case posture_lane now cond (s2, out1) of
                  Inl w3 \<Rightarrow> w3
                | Inr w3 \<Rightarrow>
                    face_touch_lane now (face_touch flags)
                      (nail_biting_lane now (nail_biting flags) w3))))"

definition partial_lane ::
  "real \<Rightarrow> bool \<Rightarrow> session \<times> effect list \<Rightarrow> session \<times> effect list" where
  \<comment> \<open>lines 2114-2135\<close>
  "partial_lane now cond w =
     (case w of (s, out) \<Rightarrow>
        (let t = timers s; label = ''Please come fully into frame'' in
         if cond then
           (let s1 = (if partial_start t = None
                      then s\<lparr>timers := t\<lparr>partial_start := Some now,
                                          partial_active_since := Some now\<rparr>\<rparr>
                      else if now - dict_get (partial_active_since t) now
                                \<ge> active_alert_appear_seconds (cfg s)
                      then s\<lparr>active_alerts := insert label (active_alerts s)\<rparr>
                      else s)
            in if \<not> dict_get (partial_notified (timers s1)) False
                  \<and> now - the (partial_start (timers s1)) \<ge> notify_after (cfg s1)
               then (s1\<lparr>timers := (timers s1)\<lparr>partial_notified := Some True\<rparr>\<rparr>,
                     out @ [Notify ''Frame Warning''
                              ''Please come fully into frame for accurate tracking.'',
                            EmitAlert ''Partial Frame - Please come fully into frame''])
               else (s1, out))
         else (s\<lparr>timers := t\<lparr>partial_start := None, partial_active_since := None,
                                partial_notified := None\<rparr>,
                  active_alerts := active_alerts s - {label}\<rparr>, out)))"

definition too_close_lane ::
  "real \<Rightarrow> bool \<Rightarrow> session \<times> effect list \<Rightarrow> session \<times> effect list" where
  \<comment> \<open>lines 2240-2259\<close>
  "too_close_lane now is_too_close w =
     (case w of (s, out) \<Rightarrow>
        (let t = timers s; label = ''Distance Alerts - Too close to screen'' in
         if is_too_close then
           (let s1 = (if too_close_start t = None
                      then s\<lparr>timers := t\<lparr>too_close_start := Some now,
                                          too_close_active_since := Some now\<rparr>\<rparr>
                      else if now - dict_get (too_close_active_since t) now
                                \<ge> active_alert_appear_seconds (cfg s)
                      then s\<lparr>active_alerts := insert label (active_alerts s)\<rparr>
                      else s)
            in if now - the (too_close_start (timers s1)) > notify_after (cfg s1)
               then (s1\<lparr>timers := (timers s1)\<lparr>too_close_start := Some (now + 60)\<rparr>,
                        today := (today s1)\<lparr>today_distance_alerts :=
                                                today_distance_alerts (today s1) + 1,
                                              session_distance_alerts :=
                                                session_distance_alerts (today s1) + 1\<rparr>\<rparr>,
                     out @ [Notify ''Too Close'' ''Move back from the screen.'', EmitAlert label])
               else (s1, out))
         else (s\<lparr>timers := t\<lparr>too_close_start := None\<rparr>,
                  active_alerts := active_alerts s - {label}\<rparr>, out)))"

section \<open>One cycle of the statistics loop\<close>

text \<open>
  The body of the loop of \<^verbatim>\<open>_stats_worker\<close>, lines 1983-2333, from the point where the
  detectors have answered. What the cycle reads from the clock, the calendar, the
  detectors and the capture loop is its input; \<open>in_faults\<close> are the statements that raise
  a storage error during the cycle. Calls that only update the window are left out.
\<close>

record cycle_input =
  in_now :: real
  in_now_posture :: real
  in_hour :: string
  in_flush_today :: string
  in_flush_hour :: string
  in_alert_ts :: string
  in_face_detected :: bool
  in_missing_parts :: int
  in_smoothed_shoulder_mid :: "ipoint option"
  in_frame :: frame_obs
  in_pixel_ipd :: "real option"
  in_faults :: "stmt set"

fun apply_emits :: "stmt set \<Rightarrow> string \<Rightarrow> effect list \<Rightarrow> store option \<Rightarrow> store option" where
  \<comment> \<open>the store side of the \<^verbatim>\<open>_emit_alert\<close> calls of a lane, in order\<close>
  "apply_emits F ts [] db = db"
| "apply_emits F ts (Notify title message # es) db = apply_emits F ts es db"
| "apply_emits F ts (EmitAlert message # es) db = apply_emits F ts es (emit_alert F ts message db)"

definition hour_rollover :: "stmt set \<Rightarrow> string \<Rightarrow> session \<times> store option \<Rightarrow> session \<times> store option" where
  \<comment> \<open>lines 1985-1990\<close>
  "hour_rollover F current_hour w =
     (case w of (s, db) \<Rightarrow>
        (case last_hour (agg s) of
           None \<Rightarrow> (s\<lparr>agg := (agg s)\<lparr>last_hour := Some current_hour\<rparr>\<rparr>, db)
         | Some h \<Rightarrow>
             if current_hour \<noteq> h
             then (case flush_hourly_metrics F (Some h) True (agg s) db of
                     (changed, a, db') \<Rightarrow> (s\<lparr>agg := a\<lparr>last_hour := Some current_hour\<rparr>\<rparr>, db'))
             else (s, db)))"

definition twenty_reminder ::
  "stmt set \<Rightarrow> real \<Rightarrow> string \<Rightarrow> session \<times> store option
     \<Rightarrow> (session \<times> store option) \<times> effect list + (session \<times> store option) \<times> effect list" where
  \<comment> \<open>lines 1991-1996; \<open>Inl\<close>: the insert or the commit raised, which ends the cycle\<close>
  "twenty_reminder F now ts w =
     (case w of (s, db) \<Rightarrow>
        if enable_twenty (cfg s) \<and> now - dict_get (last_twenty s) 0 > TWENTY_TWENTY_SEC then
          (let s1 = s\<lparr>last_twenty := Some now\<rparr>;
               out = [Notify ''20-20-20 Reminder'' ''Look 20ft away for 20 seconds.'']
           in (case db of
                 None \<Rightarrow> Inr ((s1, None), out)
               | Some st \<Rightarrow>
                   if Insert Alerts \<in> F then Inl ((s1, Some st), out)
                   else (let st1 = st\<lparr>work := (work st)\<lparr>alerts :=
                                        alerts (work st) @ [(ts, ''20-20-20 reminder'')]\<rparr>\<rparr>
                         in if Commit \<in> F then Inl ((s1, Some st1), out)
                            else Inr ((s1, Some (commit st1)), out))))
        else Inr ((s, db), []))"

definition presence_stage :: "real \<Rightarrow> bool \<Rightarrow> session \<Rightarrow> session" where
  \<comment> \<open>lines 2060-2101\<close>
  "presence_stage now face_detected s =
     s\<lparr>agg := account_visible now (track_presence now face_detected (agg s)),
       timers := (if face_detected then (timers s)\<lparr>fully_missing_count := 0\<rparr>
                  else (clear_posture_timers (timers s))
                         \<lparr>posture_reasons := [],
                          fully_missing_count := fully_missing_count (timers s) + 1\<rparr>),
       active_alerts := (if face_detected then active_alerts s
                         else active_alerts s - {''Bad Posture''})\<rparr>"

definition partial_stage ::
  "real \<Rightarrow> bool \<Rightarrow> int \<Rightarrow> bool \<Rightarrow> bool \<Rightarrow> session \<Rightarrow> session \<times> effect list" where
  \<comment> \<open>lines 2102-2135; \<open>eyes_ok\<close>: \<^verbatim>\<open>last_eyes\<close> has two entries, \<open>shoulders_ok\<close>:
      \<^verbatim>\<open>_smoothed_shoulder_mid\<close> is set\<close>
  "partial_stage now face_detected missing_parts eyes_ok shoulders_ok s =
     (let mp = missing_parts + (if eyes_ok then 0 else 1) + (if shoulders_ok then 0 else 1);
          pc = (if mp \<ge> 1 \<and> face_detected then partial_missing_count (timers s) + 1 else 0);
          s1 = s\<lparr>timers := (timers s)\<lparr>partial_missing_count := pc\<rparr>\<rparr>;
          partial_flag = (pc \<ge> 1);
          fully_out_flag = (fully_missing_count (timers s1) \<ge> 6)
      in partial_lane now (partial_flag \<and> \<not> fully_out_flag) (s1, []))"

definition history_append :: "'a \<Rightarrow> 'a list \<Rightarrow> 'a list" where
  \<comment> \<open>lines 2147-2149 and 2153-2155\<close>
  "history_append v h = (let h1 = h @ [v] in if length h1 > 10 then tl h1 else h1)"

definition posture_ready :: "cycle_input \<Rightarrow> session \<Rightarrow> bool" where
  \<comment> \<open>the condition of line 2141\<close>
  "posture_ready inp s =
     (enable_posture (cfg s) \<and> in_face_detected inp \<and> nose_px (in_frame inp) \<noteq> None
      \<and> shoulder_mid_px (in_frame inp) \<noteq> None
      \<and> (case face_width_px (in_frame inp) of None \<Rightarrow> False | Some w \<Rightarrow> w \<noteq> 0)
      \<and> length (last_eyes (in_frame inp)) \<ge> 2
      \<and> in_smoothed_shoulder_mid inp \<noteq> None)"

definition posture_stage ::
  "cycle_input \<Rightarrow> session \<Rightarrow> session \<times> effect list + session \<times> effect list" where
  \<comment> \<open>lines 2141-2167; \<open>Inl\<close>: \<^verbatim>\<open>np.mean\<close> raised on a history holding \<^verbatim>\<open>None\<close>, which ends
      the cycle\<close>
  "posture_stage inp s =
     (if posture_ready inp s then
        (let f = in_frame inp;
             call = f\<lparr>head_center_px := nose_px f,
                     face_box := (case face_box f of Some b \<Rightarrow> Some b | None \<Rightarrow> last_face_box f)\<rparr>
         in (case compute_posture_flags (cfg s) (depth_baseline s) call of
               ((flags, diag), baseline') \<Rightarrow>
                 (case update_posture_state (in_now_posture inp) flags
                         (s\<lparr>depth_baseline := baseline'\<rparr>) of
                    (s1, out) \<Rightarrow>
                      (let ho = (case horizontal_offset_norm diag of None \<Rightarrow> Some 0 | Some v \<Rightarrow> v);
                           s2 = s1\<lparr>horizontal_offset_history :=
                                     history_append ho (horizontal_offset_history s1)\<rparr>
                       in if None \<in> set (horizontal_offset_history s2) then Inl (s2, out)
                          else Inr (s2\<lparr>eye_tilt_history :=
                                       history_append (dict_get (eye_tilt_norm diag) 0)
                                         (eye_tilt_history s2)\<rparr>, out)))))
      else Inr (s, []))"

definition distance_stage :: "cycle_input \<Rightarrow> session \<Rightarrow> session \<times> effect list" where
  \<comment> \<open>lines 2186-2259\<close>
  "distance_stage inp s =
     (if enable_distance (cfg s) then
        (case estimate_distance (cfg s) (smoothed_distance_cm s) (in_pixel_ipd inp)
                (face_width_px (in_frame inp)) of
           (distance_cm, sm) \<Rightarrow>
             (let s1 = s\<lparr>smoothed_distance_cm := sm\<rparr>;
                  s2 = (case distance_cm of None \<Rightarrow> s1 | Some v \<Rightarrow> record_distance_sample v s1)
              in if distances_buffer (agg s2) \<noteq> []
                 then too_close_lane (in_now inp)
                        (case distance_cm of None \<Rightarrow> False | Some v \<Rightarrow> v < min_distance_cm (cfg s2))
                        (s2, [])
                 else (s2, [])))
      else (s, []))"

definition stats_cycle ::
  "real \<Rightarrow> cycle_input \<Rightarrow> session \<times> store option \<Rightarrow> (session \<times> store option) \<times> effect list" where
  \<comment> \<open>lines 1983-2333; \<open>interval\<close> stands for the constant \<^verbatim>\<open>SAVE_INTERVAL_SEC\<close>\<close>
  "stats_cycle interval inp w =
     (let F = in_faults inp; now = in_now inp; ts = in_alert_ts inp in
      (case twenty_reminder F now ts (hour_rollover F (in_hour inp) w) of
         Inl r \<Rightarrow> r
       | Inr ((s2, db2), out2) \<Rightarrow>
      (let s3 = presence_stage now (in_face_detected inp) s2;
           tv = total_visible now (agg s3)
       in (case partial_stage now (in_face_detected inp) (in_missing_parts inp)
                  (length (last_eyes (in_frame inp)) \<ge> 2)
                  (in_smoothed_shoulder_mid inp \<noteq> None) s3 of
             (s4, out4) \<Rightarrow>
      (let cst = current_slouch_total now (agg s4);
           s5 = s4\<lparr>agg := account_slouch now (agg s4)\<rparr>
       in (case posture_stage inp s5 of
             Inl (s6, out6) \<Rightarrow> ((s6, apply_emits F ts (out4 @ out6) db2), out2 @ out4 @ out6)
           | Inr (s6, out6) \<Rightarrow>
               (case distance_stage inp s6 of
                  (s7, out7) \<Rightarrow>
                    (periodic_save interval F now (in_flush_today inp) (in_flush_hour inp) tv cst
                       (s7, apply_emits F ts (out4 @ out6 @ out7) db2),
                     out2 @ out4 @ out6 @ out7))))))))"

definition stats_cycle_erased ::
  "real \<Rightarrow> cycle_input \<Rightarrow> stmt set \<Rightarrow> session \<times> store option
     \<Rightarrow> (session \<times> store option) \<times> effect list" where
  \<comment> \<open>the cycle of lines 1983-2333 on the statistics thread with a confirmed data erase
      (\<^verbatim>\<open>_execute_data_erase\<close>, a button callback on the main thread, no lock on the
      accumulators) running between the distance stage and the periodic save: the totals of
      lines 2090 and 2136 are read before the erase, the flush of lines 2263-2325 runs after it;
      \<open>E\<close> are the statements that fail in the erase\<close>
  "stats_cycle_erased interval inp E w =
     (let F = in_faults inp; now = in_now inp; ts = in_alert_ts inp in
      (case twenty_reminder F now ts (hour_rollover F (in_hour inp) w) of
         Inl r \<Rightarrow> r
       | Inr ((s2, db2), out2) \<Rightarrow>
      (let s3 = presence_stage now (in_face_detected inp) s2;
           tv = total_visible now (agg s3)
       in (case partial_stage now (in_face_detected inp) (in_missing_parts inp)
                  (length (last_eyes (in_frame inp)) \<ge> 2)
                  (in_smoothed_shoulder_mid inp \<noteq> None) s3 of
             (s4, out4) \<Rightarrow>
      (let cst = current_slouch_total now (agg s4);
           s5 = s4\<lparr>agg := account_slouch now (agg s4)\<rparr>
       in (case posture_stage inp s5 of
             Inl (s6, out6) \<Rightarrow> ((s6, apply_emits F ts (out4 @ out6) db2), out2 @ out4 @ out6)
           | Inr (s6, out6) \<Rightarrow>
               (case distance_stage inp s6 of
                  (s7, out7) \<Rightarrow>
                    (periodic_save interval F now (in_flush_today inp) (in_flush_hour inp) tv cst
                       (execute_data_erase E (s7, apply_emits F ts (out4 @ out6 @ out7) db2)),
                     out2 @ out4 @ out6 @ out7))))))))"

definition stats_worker_cycle ::
  "cycle_input \<Rightarrow> session \<times> store option \<Rightarrow> (session \<times> store option) \<times> effect list" where
  \<comment> \<open>the cycle with the interval of line 59\<close>
  "stats_worker_cycle = stats_cycle SAVE_INTERVAL_SEC"

fun run_cycles ::
  "real \<Rightarrow> cycle_input list \<Rightarrow> session \<times> store option \<Rightarrow> session \<times> store option" where
  \<comment> \<open>consecutive cycles of the loop\<close>
  "run_cycles interval [] w = w"
| "run_cycles interval (inp # rest) w = run_cycles interval rest (fst (stats_cycle interval inp w))"

section \<open>Executions of the aggregator\<close>

datatype event =
    Cycle cycle_input
  | Erase "stmt set"
  | Close "stmt set" real string string
  | CycleErased cycle_input "stmt set"

fun run_events :: "real \<Rightarrow> event list \<Rightarrow> session \<times> store option \<Rightarrow> session \<times> store option" where
  \<comment> \<open>the steps of an execution in their order: \<open>Cycle\<close> a whole cycle of the statistics
      loop, \<open>Erase\<close> a confirmed data erase between two cycles, \<open>Close\<close> the shutdown handler
      between two cycles with its clock and calendar readings, \<open>CycleErased\<close> a cycle with a
      data erase of the main thread running inside it\<close>
  "run_events interval [] w = w"
| "run_events interval (Cycle inp # rest) w =
     run_events interval rest (fst (stats_cycle interval inp w))"
| "run_events interval (Erase F # rest) w =
     run_events interval rest (execute_data_erase F w)"
| "run_events interval (Close F now today_str current_hour # rest) w =
     run_events interval rest (on_close F now today_str current_hour w)"
| "run_events interval (CycleErased inp E # rest) w =
     run_events interval rest (fst (stats_cycle_erased interval inp E w))"

fun clock_ok :: "real \<Rightarrow> event list \<Rightarrow> bool" where
  \<comment> \<open>the readings of \<^verbatim>\<open>time.time()\<close> do not go backwards, starting from time \<open>t\<close>\<close>
  "clock_ok t [] = True"
| "clock_ok t (Cycle inp # rest) =
     (t \<le> in_now inp \<and> in_now inp \<le> in_now_posture inp \<and> clock_ok (in_now_posture inp) rest)"
| "clock_ok t (Erase F # rest) = clock_ok t rest"
| "clock_ok t (Close F now today_str current_hour # rest) = (t \<le> now \<and> clock_ok now rest)"
| "clock_ok t (CycleErased inp E # rest) =
     (t \<le> in_now inp \<and> in_now inp \<le> in_now_posture inp \<and> clock_ok (in_now_posture inp) rest)"

fun clock_after :: "real \<Rightarrow> event list \<Rightarrow> real" where
  \<comment> \<open>the last reading of the clock\<close>
  "clock_after t [] = t"
| "clock_after t (Cycle inp # rest) = clock_after (in_now_posture inp) rest"
| "clock_after t (Erase F # rest) = clock_after t rest"
| "clock_after t (Close F now today_str current_hour # rest) = clock_after now rest"
| "clock_after t (CycleErased inp E # rest) = clock_after (in_now_posture inp) rest"

fun sequential :: "event list \<Rightarrow> bool" where
  \<comment> \<open>no data erase runs inside a cycle of the statistics loop\<close>
  "sequential [] = True"
| "sequential (CycleErased inp E # rest) = False"
| "sequential (e # rest) = sequential rest"

definition started_by :: "real \<Rightarrow> real option \<Rightarrow> bool" where
  "started_by t start = (case start of None \<Rightarrow> True | Some v \<Rightarrow> v \<le> t)"

definition watermark_inv :: "real \<Rightarrow> aggregator \<Rightarrow> bool" where
  \<comment> \<open>at time \<open>t\<close> both saved watermarks are at most the accumulated totals\<close>
  "watermark_inv t a =
     (saved_visible_seconds a \<le> total_visible t a
      \<and> saved_slouch_seconds a \<le> current_slouch_total t a
      \<and> started_by t (visible_start a) \<and> started_by t (slouch_session_start a))"

definition watermark_view ::
  "aggregator \<Rightarrow> real option \<times> int \<times> real option \<times> int \<times> int \<times> int" where
  \<comment> \<open>the attributes the watermark invariant reads\<close>
  "watermark_view a =
     (visible_start a, visible_seconds a, slouch_session_start a, slouch_accum_seconds a,
      saved_visible_seconds a, saved_slouch_seconds a)"










subsection \<open>Alert lanes over a condition stream\<close>

definition since_step :: "real option \<Rightarrow> real \<times> bool \<Rightarrow> real option" where
  \<comment> \<open>the time since which the condition has been true without a break, after one more
      sample (time, condition)\<close>
  "since_step b x =
     (if snd x then (case b of None \<Rightarrow> Some (fst x) | Some v \<Rightarrow> Some v) else None)"

definition condition_since :: "(real \<times> bool) list \<Rightarrow> real option" where
  \<comment> \<open>the time of the first sample of the run of true samples that ends the stream; \<open>None\<close>
      when the last sample is false\<close>
  "condition_since xs = foldl since_step None xs"





subsection \<open>Concrete inputs\<close>

definition face_only_frame :: frame_obs where
  \<comment> \<open>a frame with a face and nothing else: no shoulders, no eyes, no hands\<close>
  "face_only_frame =
     \<lparr>nose_px = Some (320, 200), head_center_px = None, shoulder_mid_px = None,
      detected_shoulders = None, face_width_px = None, mouth_box = None, face_box = None,
      hand_landmarks = None, image_size = Some (640, 480), last_eyes = [],
      last_face_box = None\<rparr>"

definition cycle_at :: "real \<Rightarrow> bool \<Rightarrow> cycle_input" where
  \<comment> \<open>a cycle at time \<open>t\<close> on 2024-05-01 between 10 and 11 o'clock, the store answering\<close>
  "cycle_at t detected =
     \<lparr>in_now = t, in_now_posture = t, in_hour = ''2024-05-01 10'',
      in_flush_today = ''2024-05-01'', in_flush_hour = ''2024-05-01 10'',
      in_alert_ts = ''2024-05-01 10:00:00'', in_face_detected = detected,
      in_missing_parts = 0, in_smoothed_shoulder_mid = None, in_frame = face_only_frame,
      in_pixel_ipd = None, in_faults = {}\<rparr>"



section \<open>Results\<close>

subsection \<open>Auxiliary facts\<close>

lemma merge_average_append:
  assumes "ys \<noteq> []"
  shows "merge_average (mean xs) (int (length xs)) (sum_list ys) (int (length ys))
           = (mean (xs @ ys), int (length (xs @ ys)))"
proof -
  have pos: "0 < length xs + length ys" using assms by simp
  have "mean xs * real (length xs) = sum_list xs"
    by (cases "xs = []") (simp_all add: mean_def)
  then show ?thesis using pos
    by (simp add: merge_average_def mean_def Let_def)
qed

lemma daily_screen_flush_nofault:
  "daily_screen_flush {} p d cv (s, st) =
     Inr (saved_visible_seconds (agg s) < cv,
          (if saved_visible_seconds (agg s) < cv
           then s\<lparr>agg := (agg s)\<lparr>saved_visible_seconds := cv\<rparr>,
                  today := (if p then (today s)\<lparr>today_screen_sec :=
                               fetch_int (screen_time (work st)) d + (cv - saved_visible_seconds (agg s))\<rparr>
                            else today s)\<rparr>
           else s),
          (if saved_visible_seconds (agg s) < cv
           then st\<lparr>work := (work st)\<lparr>screen_time := (screen_time (work st))
                    (d \<mapsto> fetch_int (screen_time (work st)) d + (cv - saved_visible_seconds (agg s)))\<rparr>\<rparr>
           else st))"
  by (simp add: daily_screen_flush_def Let_def max_def)

lemma daily_posture_flush_nofault:
  "daily_posture_flush {} p d cs (s, st) =
     Inr (saved_slouch_seconds (agg s) < cs,
          (if saved_slouch_seconds (agg s) < cs
           then s\<lparr>agg := (agg s)\<lparr>saved_slouch_seconds := cs\<rparr>,
                  today := (if p then (today s)\<lparr>today_posture_sec :=
                               fetch_int (posture_time (work st)) d + (cs - saved_slouch_seconds (agg s))\<rparr>
                            else today s)\<rparr>
           else s),
          (if saved_slouch_seconds (agg s) < cs
           then st\<lparr>work := (work st)\<lparr>posture_time := (posture_time (work st))
                    (d \<mapsto> fetch_int (posture_time (work st)) d + (cs - saved_slouch_seconds (agg s)))\<rparr>\<rparr>
           else st))"
  by (simp add: daily_posture_flush_def Let_def max_def)

lemma flush_hourly_store_distance_log [simp]:
  "distance_log (work (snd (snd (flush_hourly_store F k ac a st)))) = distance_log (work st)"
  by (simp add: flush_hourly_store_def hourly_visible_write_def hourly_slouch_write_def
        hourly_distance_write_def commit_def Let_def split: sum.splits)

lemma flush_hourly_store_nofault:
  "flush_hourly_store {} k False a st =
     (pending_hour_visible_seconds a > 0 \<or> pending_hour_slouch_seconds a > 0
        \<or> pending_hour_distance_count a > 0,
      reset_hourly a, snd (snd (flush_hourly_store {} k False a st)))"
  by (simp add: flush_hourly_store_def hourly_visible_write_def hourly_slouch_write_def
        hourly_distance_write_def Let_def split: sum.splits)

lemma flush_hourly_store_keeps_daily:
  assumes "flush_hourly_store F k ac a st = (hc, a', st')"
  shows "distance_log (work st') = distance_log (work st)"
    and "pending_distance_sum a' = pending_distance_sum a"
    and "pending_distance_count a' = pending_distance_count a"
  using assms
  by (auto simp add: flush_hourly_store_def hourly_visible_write_def hourly_slouch_write_def
        hourly_distance_write_def commit_def reset_hourly_def Let_def
        split: sum.splits if_splits)

lemma daily_screen_flush_keeps_distance:
  assumes "daily_screen_flush F p d cv (s, st) = Inr (ch, s1, st1)"
  shows "cfg s1 = cfg s" and "pending_distance_sum (agg s1) = pending_distance_sum (agg s)"
    and "pending_distance_count (agg s1) = pending_distance_count (agg s)"
    and "distance_log (work st1) = distance_log (work st)"
  using assms
  by (auto simp add: daily_screen_flush_def Let_def split: if_splits)

lemma daily_posture_flush_keeps_distance:
  assumes "daily_posture_flush F p d cv (s, st) = Inr (ch, s1, st1)"
  shows "cfg s1 = cfg s" and "pending_distance_sum (agg s1) = pending_distance_sum (agg s)"
    and "pending_distance_count (agg s1) = pending_distance_count (agg s)"
    and "distance_log (work st1) = distance_log (work st)"
  using assms
  by (auto simp add: daily_posture_flush_def Let_def split: if_splits)

lemma daily_distance_flush_merge:
  assumes "enable_distance (cfg s)" and "0 < pending_distance_count (agg s)"
  shows "\<exists>s3 st3. daily_distance_flush {} p d (s, st) = Inr (True, s3, st3)
           \<and> pending_distance_sum (agg s3) = 0 \<and> pending_distance_count (agg s3) = 0
           \<and> distance_log (work st3) d
               = Some (Some (fst (merge_average (fetch_real0 (distance_log (work st)) d)
                                    (fetch_count1 (distance_log (work st)) d)
                                    (pending_distance_sum (agg s)) (pending_distance_count (agg s)))),
                       Some (fetch_count1 (distance_log (work st)) d + pending_distance_count (agg s)))"
  using assms by (simp add: daily_distance_flush_def merge_average_def Let_def)



lemma py_int_mono: "x \<le> y \<Longrightarrow> py_int x \<le> py_int y"
proof -
  have "\<lceil>x\<rceil> \<le> \<lfloor>y\<rfloor>" if "x < 0" "0 \<le> y"
  proof -
    have "\<lceil>x\<rceil> \<le> 0" using that(1) by (simp add: ceiling_le_zero)
    moreover have "0 \<le> \<lfloor>y\<rfloor>" using that(2) by simp
    ultimately show ?thesis by linarith
  qed
  then show "x \<le> y \<Longrightarrow> py_int x \<le> py_int y"
    unfolding py_int_def by (auto intro: floor_mono ceiling_mono)
qed

lemma py_int_nonneg: "0 \<le> x \<Longrightarrow> 0 \<le> py_int x"
  by (simp add: py_int_def)

lemma elapsed_since_mono:
  "t \<le> t' \<Longrightarrow> elapsed_since t start \<le> elapsed_since t' start"
  by (auto simp: elapsed_since_def intro: py_int_mono split: option.splits)

lemma elapsed_since_nonneg:
  "started_by t start \<Longrightarrow> 0 \<le> elapsed_since t start"
  by (auto simp: elapsed_since_def started_by_def intro: py_int_nonneg split: option.splits)

lemma watermark_inv_later:
  "watermark_inv t a \<Longrightarrow> t \<le> t' \<Longrightarrow> watermark_inv t' a"
  unfolding watermark_inv_def total_visible_def current_slouch_total_def started_by_def
  using elapsed_since_mono[of t t' "visible_start a"] elapsed_since_mono[of t t' "slouch_session_start a"]
  by (simp split: option.splits)


lemma watermark_view_cong:
  assumes "watermark_view a = watermark_view b"
  shows "watermark_inv t a = watermark_inv t b"
    and "total_visible t a = total_visible t b"
    and "current_slouch_total t a = current_slouch_total t b"
  using assms
  by (simp_all add: watermark_view_def watermark_inv_def total_visible_def current_slouch_total_def)

lemma watermark_view_simps [simp]:
  "watermark_view (account_visible now a) = watermark_view a"
  "watermark_view (account_slouch now a) = watermark_view a"
  "watermark_view (reset_hourly a) = watermark_view a"
  "watermark_view (a\<lparr>last_hour := h\<rparr>) = watermark_view a"
  "watermark_view (a\<lparr>last_save_time := l\<rparr>) = watermark_view a"
  by (simp_all add: watermark_view_def account_visible_def account_slouch_def reset_hourly_def Let_def)

lemma clock_facts:
  assumes "t \<le> now"
  shows "\<forall>v. v \<le> t \<longrightarrow> 0 \<le> py_int (now - v)"
    and "\<forall>v. py_int (t - v) \<le> py_int (now - v)"
    and "0 \<le> t \<longrightarrow> 0 \<le> py_int now"
  using assms by (auto intro!: py_int_nonneg py_int_mono)

lemma track_presence_inv:
  assumes "watermark_inv t a" and "t \<le> now"
  shows "watermark_inv now (track_presence now fd a)"
proof -
  have later: "watermark_inv now a" using assms by (rule watermark_inv_later)
  note cf = clock_facts[OF assms(2)]
  show ?thesis
  proof (cases fd)
    case True
    then show ?thesis using later assms
      by (auto simp: track_presence_def watermark_inv_def total_visible_def truthy_def
            elapsed_since_def py_int_def started_by_def current_slouch_total_def
            split: option.splits)
  next
    case False
    have "\<forall>v. v \<le> t \<longrightarrow> 0 \<le> py_int (now - v)" by (rule cf(1))
    then show ?thesis using False later assms cf(2,3)
      by (auto simp: track_presence_def end_slouch_def watermark_inv_def total_visible_def truthy_def
            elapsed_since_def started_by_def current_slouch_total_def Let_def
            split: option.splits if_splits)
  qed
qed


lemma start_slouch_cases:
  "start_slouch now a = (if slouch_session_start a = None then a\<lparr>slouch_session_start := Some now\<rparr> else a)"
  by (simp add: start_slouch_def split: option.splits)

lemma elapsed_since_self [simp]: "elapsed_since now (Some now) = 0"
  by (simp add: elapsed_since_def py_int_def)

lemma elapsed_since_None [simp]: "elapsed_since t None = 0"
  by (simp add: elapsed_since_def)

lemma elapsed_le_py_int:
  assumes "v \<le> t" "t \<le> now"
  shows "elapsed_since t (Some v) \<le> py_int (now - v)"
proof (cases "v = 0")
  case True
  then show ?thesis using assms by (simp add: elapsed_since_def py_int_def)
next
  case False
  then show ?thesis using assms(2) by (simp add: elapsed_since_def py_int_mono)
qed

lemma slouch_step_inv:
  assumes inv: "watermark_inv t a" and le: "t \<le> now"
    and a': "a' = a \<or> a' = start_slouch now a \<or> a' = end_slouch now a"
  shows "watermark_inv now a'"
    and "total_visible t a \<le> total_visible now a'"
    and "current_slouch_total t a \<le> current_slouch_total now a'"
proof -
  have later: "watermark_inv now a" using inv le by (rule watermark_inv_later)
  have em: "elapsed_since t x \<le> elapsed_since now x" for x
    using le by (rule elapsed_since_mono)
  have vis: "visible_start a' = visible_start a" "visible_seconds a' = visible_seconds a"
    "saved_visible_seconds a' = saved_visible_seconds a" "saved_slouch_seconds a' = saved_slouch_seconds a"
    using a' by (auto simp: start_slouch_cases end_slouch_def split: option.splits)
  show tv: "total_visible t a \<le> total_visible now a'"
    using em[of "visible_start a"] vis by (simp add: total_visible_def)
  show cs: "current_slouch_total t a \<le> current_slouch_total now a'"
  proof (cases "slouch_session_start a")
    case None
    then have "a' = a \<or> a' = a\<lparr>slouch_session_start := Some now\<rparr>"
      using a' by (auto simp: start_slouch_cases end_slouch_def)
    then show ?thesis using None
      by (auto simp: current_slouch_total_def)
  next
    case (Some v)
    then have v: "v \<le> t" using inv by (simp add: watermark_inv_def started_by_def)
    have "a' = a \<or> a' = a\<lparr>slouch_accum_seconds := slouch_accum_seconds a + py_int (now - v),
                              slouch_session_start := None\<rparr>"
      using a' Some by (auto simp: start_slouch_cases end_slouch_def)
    then show ?thesis
      using Some em[of "Some v"] elapsed_le_py_int[OF v le]
      by (auto simp: current_slouch_total_def)
  qed
  have st: "started_by now (slouch_session_start a')"
    using a' later by (auto simp: start_slouch_cases end_slouch_def watermark_inv_def started_by_def
        split: option.splits)
  show "watermark_inv now a'"
    using later tv cs st vis inv by (simp add: watermark_inv_def)
qed


lemma flush_hourly_store_view:
  "watermark_view (fst (snd (flush_hourly_store F k ac a st))) = watermark_view a"
  by (simp add: flush_hourly_store_def Let_def split: sum.splits)

lemma flush_hourly_metrics_view:
  "watermark_view (fst (snd (flush_hourly_metrics F k ac a db))) = watermark_view a"
proof (cases db)
  case None
  then show ?thesis by (simp add: flush_hourly_metrics_def)
next
  case (Some st)
  show ?thesis
  proof (cases k)
    case None
    then show ?thesis using Some by (simp add: flush_hourly_metrics_def)
  next
    case (Some key)
    then show ?thesis using \<open>db = Some st\<close> flush_hourly_store_view[of F key ac a st]
      by (auto simp: flush_hourly_metrics_def split: prod.splits)
  qed
qed


lemma daily_screen_flush_view:
  assumes "daily_screen_flush F p d cv (s, st) = r"
  shows "\<exists>s' st' ch. (r = Inl (s', st') \<or> r = Inr (ch, s', st'))
           \<and> cfg s' = cfg s
           \<and> (watermark_view (agg s') = watermark_view (agg s)
                \<or> watermark_view (agg s') = watermark_view ((agg s)\<lparr>saved_visible_seconds := cv\<rparr>))"
  using assms by (auto simp: daily_screen_flush_def Let_def watermark_view_def split: if_splits)

lemma daily_posture_flush_view:
  assumes "daily_posture_flush F p d cs (s, st) = r"
  shows "\<exists>s' st' ch. (r = Inl (s', st') \<or> r = Inr (ch, s', st'))
           \<and> cfg s' = cfg s
           \<and> (watermark_view (agg s') = watermark_view (agg s)
                \<or> watermark_view (agg s') = watermark_view ((agg s)\<lparr>saved_slouch_seconds := cs\<rparr>))"
  using assms by (auto simp: daily_posture_flush_def Let_def watermark_view_def split: if_splits)

lemma daily_distance_flush_view:
  assumes "daily_distance_flush F p d (s, st) = r"
  shows "\<exists>s' st' ch. (r = Inl (s', st') \<or> r = Inr (ch, s', st'))
           \<and> cfg s' = cfg s \<and> watermark_view (agg s') = watermark_view (agg s)"
  using assms by (auto simp: daily_distance_flush_def Let_def watermark_view_def split: if_splits)

lemma flush_daily_view:
  assumes "flush_daily F p now d h cv cs (s, st) = (s', st')"
  shows "cfg s' = cfg s"
    and "visible_start (agg s') = visible_start (agg s)"
    and "visible_seconds (agg s') = visible_seconds (agg s)"
    and "slouch_session_start (agg s') = slouch_session_start (agg s)"
    and "slouch_accum_seconds (agg s') = slouch_accum_seconds (agg s)"
    and "saved_visible_seconds (agg s') = saved_visible_seconds (agg s)
         \<or> saved_visible_seconds (agg s') = cv"
    and "saved_slouch_seconds (agg s') = saved_slouch_seconds (agg s)
         \<or> saved_slouch_seconds (agg s') = cs"
proof -
  define r1 where "r1 = daily_screen_flush F p d cv (s, st)"
  obtain s1 st1 ch1 where r1: "r1 = Inl (s1, st1) \<or> r1 = Inr (ch1, s1, st1)"
    and c1: "cfg s1 = cfg s"
    and v1: "watermark_view (agg s1) = watermark_view (agg s)
             \<or> watermark_view (agg s1) = watermark_view ((agg s)\<lparr>saved_visible_seconds := cv\<rparr>)"
    using daily_screen_flush_view[of F p d cv s st r1] unfolding r1_def by blast
  define r2 where "r2 = daily_posture_flush F p d cs (s1, st1)"
  obtain s2 st2 ch2 where r2: "r2 = Inl (s2, st2) \<or> r2 = Inr (ch2, s2, st2)"
    and c2: "cfg s2 = cfg s1"
    and v2: "watermark_view (agg s2) = watermark_view (agg s1)
             \<or> watermark_view (agg s2) = watermark_view ((agg s1)\<lparr>saved_slouch_seconds := cs\<rparr>)"
    using daily_posture_flush_view[of F p d cs s1 st1 r2] unfolding r2_def by blast
  define r3 where "r3 = daily_distance_flush F p d (s2, st2)"
  obtain s3 st3 ch3 where r3: "r3 = Inl (s3, st3) \<or> r3 = Inr (ch3, s3, st3)"
    and c3: "cfg s3 = cfg s2"
    and v3: "watermark_view (agg s3) = watermark_view (agg s2)"
    using daily_distance_flush_view[of F p d s2 st2 r3] unfolding r3_def by blast
  obtain hc a4 st4 where r4: "flush_hourly_store F h False (agg s3) st3 = (hc, a4, st4)"
    by (cases "flush_hourly_store F h False (agg s3) st3") auto
  have v4: "watermark_view a4 = watermark_view (agg s3)"
    using flush_hourly_store_view[of F h False "agg s3" st3] r4 by simp
  have "(s' = s1 \<or> s' = s2 \<or> s' = s3 \<or> s' = s3\<lparr>agg := a4\<rparr>
          \<or> s' = s3\<lparr>agg := a4\<lparr>last_save_time := now\<rparr>\<rparr>)"
    using assms r1 r2 r3 r4
    by (auto simp: flush_daily_def r1_def[symmetric] r2_def[symmetric] r3_def[symmetric]
          split: if_splits)
  moreover have "watermark_view (a4\<lparr>last_save_time := now\<rparr>) = watermark_view a4" by simp
  ultimately have
    "cfg s' = cfg s \<and>
     (watermark_view (agg s') = watermark_view (agg s1) \<or> watermark_view (agg s') = watermark_view (agg s2))"
    using c1 c2 c3 v3 v4 by auto
  then show "cfg s' = cfg s"
    and "visible_start (agg s') = visible_start (agg s)"
    and "visible_seconds (agg s') = visible_seconds (agg s)"
    and "slouch_session_start (agg s') = slouch_session_start (agg s)"
    and "slouch_accum_seconds (agg s') = slouch_accum_seconds (agg s)"
    and "saved_visible_seconds (agg s') = saved_visible_seconds (agg s)
         \<or> saved_visible_seconds (agg s') = cv"
    and "saved_slouch_seconds (agg s') = saved_slouch_seconds (agg s)
         \<or> saved_slouch_seconds (agg s') = cs"
    using v1 v2 by (auto simp: watermark_view_def)
qed


lemma hour_rollover_view:
  "watermark_view (agg (fst (hour_rollover F h (s, db)))) = watermark_view (agg s)"
proof (cases "last_hour (agg s)")
  case None
  then show ?thesis by (simp add: hour_rollover_def)
next
  case (Some k)
  show ?thesis
    using Some flush_hourly_metrics_view[of F "Some k" True "agg s" db]
    by (auto simp: hour_rollover_def split: prod.splits)
qed

lemma twenty_reminder_agg:
  "agg (fst (fst (case_sum id id (twenty_reminder F now ts (s, db))))) = agg s"
  by (simp add: twenty_reminder_def Let_def split: option.splits)

lemma partial_lane_agg:
  "agg (fst (partial_lane now c (s, out))) = agg s"
  by (simp add: partial_lane_def Let_def)

lemma partial_stage_agg:
  "agg (fst (partial_stage now fd mp e sh s)) = agg s"
  by (simp add: partial_stage_def Let_def partial_lane_agg)

lemma body_turned_lane_agg:
  "agg (fst (case_sum id id (body_turned_lane now c (s, out)))) = agg s"
  by (simp add: body_turned_lane_def Let_def split: option.splits)

lemma posture_condition_agg:
  "agg (snd (posture_condition now flags s)) = agg s"
  by (simp add: posture_condition_def Let_def)

lemma posture_lane_agg:
  "agg (fst (case_sum id id (posture_lane now c (s, out))))
     \<in> {agg s, start_slouch now (agg s), end_slouch now (agg s)}"
  by (simp add: posture_lane_def Let_def split: option.splits)

lemma nail_biting_lane_agg:
  "agg (fst (nail_biting_lane now c (s, out))) = agg s"
  by (simp add: nail_biting_lane_def Let_def)

lemma face_touch_lane_agg:
  "agg (fst (face_touch_lane now c (s, out))) = agg s"
  by (simp add: face_touch_lane_def Let_def)


lemma update_posture_state_agg:
  "agg (fst (update_posture_state now flags s))
     \<in> {agg s, start_slouch now (agg s), end_slouch now (agg s)}"
proof -
  define r1 where "r1 = body_turned_lane now (body_turned flags) (s, [])"
  have a1: "agg (fst (case_sum id id r1)) = agg s"
    unfolding r1_def by (rule body_turned_lane_agg)
  show ?thesis
  proof (cases r1)
    case (Inl w1)
    then show ?thesis using a1 by (simp add: update_posture_state_def r1_def[symmetric])
  next
    case (Inr w1)
    obtain s1 out1 where w1: "w1 = (s1, out1)" by (cases w1)
    have s1: "agg s1 = agg s" using a1 Inr w1 by simp
    obtain c s2 where pc: "posture_condition now flags s1 = (c, s2)"
      by (cases "posture_condition now flags s1")
    have s2: "agg s2 = agg s" using posture_condition_agg[of now flags s1] pc s1 by simp
    define r3 where "r3 = posture_lane now c (s2, out1)"
    have a3: "agg (fst (case_sum id id r3)) \<in> {agg s, start_slouch now (agg s), end_slouch now (agg s)}"
      using posture_lane_agg[of now c s2 out1] s2 by (simp add: r3_def)
    show ?thesis
    proof (cases r3)
      case (Inl w3)
      then show ?thesis using a3 Inr w1 pc
        by (simp add: update_posture_state_def r1_def[symmetric] r3_def[symmetric])
    next
      case (Inr w3)
      obtain s3 out3 where w3: "w3 = (s3, out3)" by (cases w3)
      obtain s4 out4 where n: "nail_biting_lane now (nail_biting flags) (s3, out3) = (s4, out4)"
        by (cases "nail_biting_lane now (nail_biting flags) (s3, out3)")
      have "agg s4 = agg s3" using nail_biting_lane_agg[of now "nail_biting flags" s3 out3] n by simp
      moreover have "agg (fst (face_touch_lane now (face_touch flags) (s4, out4))) = agg s4"
        by (rule face_touch_lane_agg)
      ultimately show ?thesis using a3 Inr w3 n \<open>r1 = Inr w1\<close> w1 pc
        by (simp add: update_posture_state_def r1_def[symmetric] r3_def[symmetric])
    qed
  qed
qed

lemma posture_stage_agg:
  "agg (fst (case_sum id id (posture_stage inp s)))
     \<in> {agg s, start_slouch (in_now_posture inp) (agg s), end_slouch (in_now_posture inp) (agg s)}"
proof (cases "posture_ready inp s")
  case False
  then show ?thesis by (simp add: posture_stage_def)
next
  case True
  define call where "call = (in_frame inp)\<lparr>head_center_px := nose_px (in_frame inp),
                     face_box := (case face_box (in_frame inp) of Some b \<Rightarrow> Some b
                                  | None \<Rightarrow> last_face_box (in_frame inp))\<rparr>"
  obtain flags diag bl where c: "compute_posture_flags (cfg s) (depth_baseline s) call = ((flags, diag), bl)"
    by (cases "compute_posture_flags (cfg s) (depth_baseline s) call") auto
  obtain s1 out where u: "update_posture_state (in_now_posture inp) flags (s\<lparr>depth_baseline := bl\<rparr>) = (s1, out)"
    by (cases "update_posture_state (in_now_posture inp) flags (s\<lparr>depth_baseline := bl\<rparr>)")
  have "agg s1 \<in> {agg s, start_slouch (in_now_posture inp) (agg s), end_slouch (in_now_posture inp) (agg s)}"
    using update_posture_state_agg[of "in_now_posture inp" flags "s\<lparr>depth_baseline := bl\<rparr>"] u by simp
  then show ?thesis using True c u
    by (auto simp: posture_stage_def Let_def call_def[symmetric])
qed

lemma too_close_lane_agg:
  "agg (fst (too_close_lane now c (s, out))) = agg s"
  by (simp add: too_close_lane_def Let_def)

lemma record_distance_sample_view:
  "watermark_view (agg (record_distance_sample v s)) = watermark_view (agg s)"
  by (simp add: record_distance_sample_def watermark_view_def Let_def)

lemma distance_stage_view:
  "watermark_view (agg (fst (distance_stage inp s))) = watermark_view (agg s)"
  by (auto simp: distance_stage_def Let_def too_close_lane_agg record_distance_sample_view
        split: prod.splits option.splits)


lemma periodic_save_view:
  assumes "periodic_save i F now d h cv cs (s, db) = (s', db')"
  shows "visible_start (agg s') = visible_start (agg s)"
    and "visible_seconds (agg s') = visible_seconds (agg s)"
    and "slouch_session_start (agg s') = slouch_session_start (agg s)"
    and "slouch_accum_seconds (agg s') = slouch_accum_seconds (agg s)"
    and "saved_visible_seconds (agg s') = saved_visible_seconds (agg s)
         \<or> saved_visible_seconds (agg s') = cv"
    and "saved_slouch_seconds (agg s') = saved_slouch_seconds (agg s)
         \<or> saved_slouch_seconds (agg s') = cs"
proof -
  have "s' = s \<or> (\<exists>st st'. flush_daily F True now d h cv cs (s, st) = (s', st'))"
    using assms by (auto simp: periodic_save_def split: option.splits if_splits prod.splits)
  then show "visible_start (agg s') = visible_start (agg s)"
    and "visible_seconds (agg s') = visible_seconds (agg s)"
    and "slouch_session_start (agg s') = slouch_session_start (agg s)"
    and "slouch_accum_seconds (agg s') = slouch_accum_seconds (agg s)"
    and "saved_visible_seconds (agg s') = saved_visible_seconds (agg s)
         \<or> saved_visible_seconds (agg s') = cv"
    and "saved_slouch_seconds (agg s') = saved_slouch_seconds (agg s)
         \<or> saved_slouch_seconds (agg s') = cs"
    using flush_daily_view(2-7)[of F True now d h cv cs s _ s' _] by blast+
qed

lemma periodic_save_inv:
  assumes "periodic_save i F now d h cv cs (s, db) = (s', db')"
    and "watermark_inv t (agg s)"
    and "cv \<le> total_visible t (agg s)" and "cs \<le> current_slouch_total t (agg s)"
  shows "watermark_inv t (agg s')"
  using periodic_save_view[OF assms(1)] assms(2-4)
  by (auto simp: watermark_inv_def total_visible_def current_slouch_total_def)


lemma stats_cycle_inv:
  assumes inv: "watermark_inv t (agg s)"
    and t1: "t \<le> in_now inp" and t2: "in_now inp \<le> in_now_posture inp"
  shows "watermark_inv (in_now_posture inp) (agg (fst (fst (stats_cycle i inp (s, db)))))"
proof -
  define F where "F = in_faults inp"
  define now where "now = in_now inp"
  define now2 where "now2 = in_now_posture inp"
  define ts where "ts = in_alert_ts inp"
  have le: "t \<le> now" "now \<le> now2" "t \<le> now2" using t1 t2 by (simp_all add: now_def now2_def)
  obtain s1 db1 where r1: "hour_rollover F (in_hour inp) (s, db) = (s1, db1)"
    by (cases "hour_rollover F (in_hour inp) (s, db)")
  have v1: "watermark_view (agg s1) = watermark_view (agg s)"
    using hour_rollover_view[of F "in_hour inp" s db] r1 by simp
  have i1: "watermark_inv t (agg s1)" using inv watermark_view_cong(1)[OF v1] by simp
  define r2 where "r2 = twenty_reminder F now ts (s1, db1)"
  have a2: "agg (fst (fst (case_sum id id r2))) = agg s1"
    unfolding r2_def by (rule twenty_reminder_agg)
  show ?thesis
  proof (cases r2)
    case (Inl r)
    have "stats_cycle i inp (s, db) = r"
      using Inl r1 by (simp add: stats_cycle_def Let_def F_def[symmetric] now_def[symmetric]
          ts_def[symmetric] r2_def[symmetric])
    moreover have "agg (fst (fst r)) = agg s1" using a2 Inl by simp
    ultimately show ?thesis using watermark_inv_later[OF i1 le(3)] by (simp add: now2_def)
  next
    case (Inr r)
    obtain s2 db2 out2 where r: "r = ((s2, db2), out2)" by (cases r) auto
    have s2: "agg s2 = agg s1" using a2 Inr r by simp
    define s3 where "s3 = presence_stage now (in_face_detected inp) s2"
    have a3: "agg s3 = account_visible now (track_presence now (in_face_detected inp) (agg s2))"
      by (simp add: s3_def presence_stage_def)
    have i3: "watermark_inv now (agg s3)"
      using track_presence_inv[OF i1 le(1), of "in_face_detected inp"] s2
        watermark_view_cong(1)[of "agg s3" "track_presence now (in_face_detected inp) (agg s2)" now]
      by (simp add: a3)
    define tv where "tv = total_visible now (agg s3)"
    obtain s4 out4 where r4: "partial_stage now (in_face_detected inp) (in_missing_parts inp)
                  (length (last_eyes (in_frame inp)) \<ge> 2)
                  (in_smoothed_shoulder_mid inp \<noteq> None) s3 = (s4, out4)"
      by (cases "partial_stage now (in_face_detected inp) (in_missing_parts inp)
                  (length (last_eyes (in_frame inp)) \<ge> 2)
                  (in_smoothed_shoulder_mid inp \<noteq> None) s3")
    have s4: "agg s4 = agg s3"
      using partial_stage_agg[of now "in_face_detected inp" "in_missing_parts inp"
              "length (last_eyes (in_frame inp)) \<ge> 2" "in_smoothed_shoulder_mid inp \<noteq> None" s3] r4
      by simp
    define cst where "cst = current_slouch_total now (agg s4)"
    define s5 where "s5 = s4\<lparr>agg := account_slouch now (agg s4)\<rparr>"
    have v5: "watermark_view (agg s5) = watermark_view (agg s3)" by (simp add: s5_def s4)
    have i5: "watermark_inv now (agg s5)" using i3 watermark_view_cong(1)[OF v5] by simp
    have tv5: "tv = total_visible now (agg s5)"
      using watermark_view_cong(2)[OF v5] by (simp add: tv_def)
    have cs5: "cst = current_slouch_total now (agg s5)"
      using watermark_view_cong(3)[OF v5] by (simp add: cst_def s4)
    define r6 where "r6 = posture_stage inp s5"
    obtain s6 out6 where w6: "case_sum id id r6 = (s6, out6)" by (cases "case_sum id id r6")
    have a6: "agg s6 = agg s5 \<or> agg s6 = start_slouch now2 (agg s5) \<or> agg s6 = end_slouch now2 (agg s5)"
      using posture_stage_agg[of inp s5] w6 by (auto simp: r6_def now2_def)
    note st = slouch_step_inv[OF i5 le(2) a6]
    have i6: "watermark_inv now2 (agg s6)" by (rule st(1))
    have tv6: "tv \<le> total_visible now2 (agg s6)" using st(2) tv5 by simp
    have cs6: "cst \<le> current_slouch_total now2 (agg s6)" using st(3) cs5 by simp
    show ?thesis
    proof (cases r6)
      case (Inl w)
      then have w: "w = (s6, out6)" using w6 by simp
      have "fst (fst (stats_cycle i inp (s, db))) = s6"
        using Inl w r1 \<open>r2 = Inr r\<close> r r4
        by (simp add: stats_cycle_def Let_def F_def[symmetric] now_def[symmetric]
            ts_def[symmetric] r2_def[symmetric] s3_def[symmetric] s5_def[symmetric]
            r6_def[symmetric])
      then show ?thesis using i6 by (simp add: now2_def)
    next
      case (Inr w)
      then have w: "w = (s6, out6)" using w6 by simp
      obtain s7 out7 where r7: "distance_stage inp s6 = (s7, out7)"
        by (cases "distance_stage inp s6")
      have v7: "watermark_view (agg s7) = watermark_view (agg s6)"
        using distance_stage_view[of inp s6] r7 by simp
      obtain s8 db8 where r8: "periodic_save i F now (in_flush_today inp) (in_flush_hour inp) tv cst
                       (s7, apply_emits F ts (out4 @ out6 @ out7) db2) = (s8, db8)"
        by (cases "periodic_save i F now (in_flush_today inp) (in_flush_hour inp) tv cst
                       (s7, apply_emits F ts (out4 @ out6 @ out7) db2)")
      have i8: "watermark_inv now2 (agg s8)"
        using periodic_save_inv[OF r8, of now2] i6 tv6 cs6
          watermark_view_cong[OF v7, of now2] by simp
      have "fst (fst (stats_cycle i inp (s, db))) = s8"
        using Inr w r1 \<open>r2 = Inr r\<close> r r4 r7 r8
        by (simp add: stats_cycle_def Let_def F_def[symmetric] now_def[symmetric]
            ts_def[symmetric] r2_def[symmetric] s3_def[symmetric] s5_def[symmetric]
            r6_def[symmetric] tv_def[symmetric] cst_def[symmetric])
      then show ?thesis using i8 by (simp add: now2_def)
    qed
  qed
qed


lemma execute_data_erase_inv:
  assumes "watermark_inv t (agg s)"
  shows "watermark_inv t (agg (fst (execute_data_erase F (s, db))))"
proof -
  have "watermark_inv t (agg (reset_metrics s))"
    using assms elapsed_since_nonneg[of t "visible_start (agg s)"]
      elapsed_since_nonneg[of t "slouch_session_start (agg s)"]
    by (simp add: reset_metrics_def watermark_inv_def total_visible_def current_slouch_total_def)
  then show ?thesis using assms
    by (auto simp: execute_data_erase_def split: option.splits sum.splits)
qed

lemma initial_session_inv:
  "watermark_inv t (agg (initial_session c t0 d counts db))"
  by (simp add: initial_session_def initial_aggregator_def watermark_inv_def total_visible_def
        current_slouch_total_def started_by_def Let_def)

lemma on_close_inv:
  assumes "watermark_inv t (agg s)" and "t \<le> now"
  shows "watermark_inv now (agg (fst (on_close F now d h (s, db))))"
proof -
  define a1 where "a1 = (case visible_start (agg s) of
                     None \<Rightarrow> agg s
                   | Some v \<Rightarrow> if v \<noteq> 0
                               then (agg s)\<lparr>visible_seconds := visible_seconds (agg s) + py_int (now - v),
                                      visible_start := None\<rparr>
                               else agg s)"
  define a2 where "a2 = end_slouch now a1"
  have later: "watermark_inv now (agg s)" using assms by (rule watermark_inv_later)
  have i1: "watermark_inv now a1"
    using later by (auto simp: a1_def watermark_inv_def total_visible_def current_slouch_total_def
        elapsed_since_def started_by_def split: option.splits)
  have i2: "watermark_inv now a2"
    unfolding a2_def by (rule slouch_step_inv(1)[OF i1]) simp_all
  have tv: "visible_seconds a2 \<le> total_visible now a2"
    using i2 elapsed_since_nonneg[of now "visible_start a2"]
    by (simp add: watermark_inv_def total_visible_def)
  have cs: "slouch_accum_seconds a2 \<le> current_slouch_total now a2"
    using i2 elapsed_since_nonneg[of now "slouch_session_start a2"]
    by (simp add: watermark_inv_def current_slouch_total_def)
  show ?thesis
  proof (cases db)
    case None
    then show ?thesis using i2 by (simp add: on_close_def Let_def a1_def[symmetric] a2_def[symmetric])
  next
    case (Some st)
    obtain s' st' where r: "flush_daily F False now d h (visible_seconds a2) (slouch_accum_seconds a2)
                              (s\<lparr>agg := a2\<rparr>, st) = (s', st')"
      by (cases "flush_daily F False now d h (visible_seconds a2) (slouch_accum_seconds a2)
                              (s\<lparr>agg := a2\<rparr>, st)")
    have "watermark_inv now (agg s')"
      using flush_daily_view(2-7)[OF r] i2 tv cs
      by (auto simp: watermark_inv_def total_visible_def current_slouch_total_def)
    then show ?thesis using Some r
      by (simp add: on_close_def Let_def a1_def[symmetric] a2_def[symmetric])
  qed
qed

lemma run_events_inv:
  assumes "clock_ok t evs" and "watermark_inv t (agg (fst w))" and "sequential evs"
  shows "watermark_inv (clock_after t evs) (agg (fst (run_events i evs w)))"
  using assms
proof (induction evs arbitrary: t w)
  case Nil
  then show ?case by simp
next
  case (Cons e evs)
  obtain s db where w: "w = (s, db)" by (cases w)
  show ?case
  proof (cases e)
    case (Cycle inp)
    have "watermark_inv (in_now_posture inp) (agg (fst (fst (stats_cycle i inp (s, db)))))"
      using Cons.prems Cycle w by (intro stats_cycle_inv[of t]) simp_all
    then show ?thesis using Cons.IH[of "in_now_posture inp" "fst (stats_cycle i inp w)"] Cons.prems Cycle w
      by simp
  next
    case (Erase F)
    have "watermark_inv t (agg (fst (execute_data_erase F (s, db))))"
      using Cons.prems w by (intro execute_data_erase_inv) simp
    then show ?thesis using Cons.IH[of t "execute_data_erase F w"] Cons.prems Erase w
      by simp
  next
    case (Close F now d h)
    have "watermark_inv now (agg (fst (on_close F now d h (s, db))))"
      using Cons.prems w Close by (intro on_close_inv[of t]) simp_all
    then show ?thesis using Cons.IH[of now "on_close F now d h w"] Cons.prems Close w
      by simp
  next
    case (CycleErased inp E)
    then show ?thesis using Cons.prems by simp
  qed
qed

lemma sequential_take: "sequential evs \<Longrightarrow> sequential (take n evs)"
proof (induction evs arbitrary: n)
  case Nil
  then show ?case by simp
next
  case (Cons e evs)
  then show ?case by (cases n; cases e) auto
qed


lemma clock_ok_take: "clock_ok t evs \<Longrightarrow> clock_ok t (take n evs)"
proof (induction evs arbitrary: t n)
  case Nil
  then show ?case by simp
next
  case (Cons e evs)
  then show ?case by (cases n; cases e) auto
qed

lemma reset_hourly_twice: "reset_hourly (reset_hourly a) = reset_hourly a"
  by (simp add: reset_hourly_def Let_def)

lemma flush_hourly_store_quiet:
  assumes "pending_hour_visible_seconds a \<le> 0" "pending_hour_slouch_seconds a \<le> 0"
    "pending_hour_distance_count a \<le> 0"
  shows "flush_hourly_store F k ac a st = (False, a, st)"
  using assms
  by (simp add: flush_hourly_store_def hourly_visible_write_def hourly_slouch_write_def
        hourly_distance_write_def reset_hourly_def Let_def)

lemma flush_hourly_store_nofault_result:
  "flush_hourly_store {} k False a st = (hc, a', st') \<Longrightarrow>
     pending_hour_visible_seconds a' \<le> 0 \<and> pending_hour_slouch_seconds a' \<le> 0
     \<and> pending_hour_distance_count a' \<le> 0
     \<and> pending_distance_count a' = pending_distance_count a"
  by (auto simp: flush_hourly_store_def hourly_visible_write_def hourly_slouch_write_def
        hourly_distance_write_def reset_hourly_def Let_def split: if_splits)


lemma daily_distance_flush_nofault:
  "daily_distance_flush {} p d (s, st) =
     (if enable_distance (cfg s) \<and> 0 < pending_distance_count (agg s)
      then Inr (True, fst (snd (projr (daily_distance_flush {} p d (s, st)))),
                snd (snd (projr (daily_distance_flush {} p d (s, st)))))
      else Inr (False, s, st))"
  by (simp add: daily_distance_flush_def Let_def)

lemma daily_distance_flush_settled:
  assumes "daily_distance_flush {} p d (s, st) = Inr (ch, s', st')"
  shows "\<not> (enable_distance (cfg s') \<and> 0 < pending_distance_count (agg s'))"
    and "saved_visible_seconds (agg s') = saved_visible_seconds (agg s)"
    and "saved_slouch_seconds (agg s') = saved_slouch_seconds (agg s)"
  using assms by (auto simp: daily_distance_flush_def Let_def split: if_splits)

lemma flush_daily_settled:
  assumes "flush_daily {} p now d h cv cs (s, st) = (s', st')"
  shows "cv \<le> saved_visible_seconds (agg s')" and "cs \<le> saved_slouch_seconds (agg s')"
    and "\<not> (enable_distance (cfg s') \<and> 0 < pending_distance_count (agg s'))"
    and "pending_hour_visible_seconds (agg s') \<le> 0"
    and "pending_hour_slouch_seconds (agg s') \<le> 0"
    and "pending_hour_distance_count (agg s') \<le> 0"
proof -
  obtain ch1 s1 st1 where w1: "daily_screen_flush {} p d cv (s, st) = Inr (ch1, s1, st1)"
    and p1: "cv \<le> saved_visible_seconds (agg s1)"
    by (simp add: daily_screen_flush_nofault)
  obtain ch2 s2 st2 where w2: "daily_posture_flush {} p d cs (s1, st1) = Inr (ch2, s2, st2)"
    and p2: "cs \<le> saved_slouch_seconds (agg s2)"
       "saved_visible_seconds (agg s2) = saved_visible_seconds (agg s1)"
    by (simp add: daily_posture_flush_nofault)
  obtain ch3 s3 st3 where w3: "daily_distance_flush {} p d (s2, st2) = Inr (ch3, s3, st3)"
    by (cases "daily_distance_flush {} p d (s2, st2)")
       (auto simp: daily_distance_flush_def Let_def split: if_splits)
  note p3 = daily_distance_flush_settled[OF w3]
  have c3: "cfg s3 = cfg s2" using daily_distance_flush_view[OF w3] by auto
  obtain hc a4 st4 where w4: "flush_hourly_store {} h False (agg s3) st3 = (hc, a4, st4)"
    by (cases "flush_hourly_store {} h False (agg s3) st3") auto
  note p4 = flush_hourly_store_nofault_result[OF w4]
  have v4: "watermark_view a4 = watermark_view (agg s3)"
    using flush_hourly_store_view[of "{}" h False "agg s3" st3] w4 by simp
  have "agg s' = a4 \<or> agg s' = a4\<lparr>last_save_time := now\<rparr>" and "cfg s' = cfg s3"
    using assms by (auto simp: flush_daily_def w1 w2 w3 w4 split: if_splits)
  then show "cv \<le> saved_visible_seconds (agg s')" and "cs \<le> saved_slouch_seconds (agg s')"
    and "\<not> (enable_distance (cfg s') \<and> 0 < pending_distance_count (agg s'))"
    and "pending_hour_visible_seconds (agg s') \<le> 0"
    and "pending_hour_slouch_seconds (agg s') \<le> 0"
    and "pending_hour_distance_count (agg s') \<le> 0"
    using p1 p2 p3 p4 v4 by (auto simp: watermark_view_def)
qed

lemma flush_daily_quiet:
  assumes "cv \<le> saved_visible_seconds (agg s)" and "cs \<le> saved_slouch_seconds (agg s)"
    and "\<not> (enable_distance (cfg s) \<and> 0 < pending_distance_count (agg s))"
    and "pending_hour_visible_seconds (agg s) \<le> 0"
    and "pending_hour_slouch_seconds (agg s) \<le> 0"
    and "pending_hour_distance_count (agg s) \<le> 0"
  shows "flush_daily F p now d h cv cs (s, st) = (s, st)"
proof -
  have 1: "daily_screen_flush F p d cv (s, st) = Inr (False, s, st)"
    using assms(1) by (simp add: daily_screen_flush_def Let_def)
  have 2: "daily_posture_flush F p d cs (s, st) = Inr (False, s, st)"
    using assms(2) by (simp add: daily_posture_flush_def Let_def)
  have 3: "daily_distance_flush F p d (s, st) = Inr (False, s, st)"
    using assms(3) by (auto simp: daily_distance_flush_def Let_def)
  have 4: "flush_hourly_store F h False (agg s) st = (False, agg s, st)"
    using assms(4-6) by (rule flush_hourly_store_quiet)
  show ?thesis by (simp add: flush_daily_def 1 2 3 4)
qed

lemma flush_daily_idempotent:
  "flush_daily F' p' now' d' h' cv cs (flush_daily {} p now d h cv cs (s, st))
     = flush_daily {} p now d h cv cs (s, st)"
proof -
  obtain s' st' where r: "flush_daily {} p now d h cv cs (s, st) = (s', st')"
    by (cases "flush_daily {} p now d h cv cs (s, st)")
  show ?thesis using flush_daily_quiet[OF flush_daily_settled[OF r]] r by simp
qed


lemmas cycle_defs =
  stats_cycle_def hour_rollover_def twenty_reminder_def presence_stage_def partial_stage_def
  partial_lane_def posture_stage_def posture_ready_def distance_stage_def estimate_distance_def
  eye_estimate_def face_estimate_def periodic_save_def flush_daily_def daily_screen_flush_def
  daily_posture_flush_def daily_distance_flush_def flush_hourly_store_def flush_hourly_metrics_def
  hourly_visible_write_def hourly_slouch_write_def hourly_distance_write_def reset_hourly_def
  track_presence_def account_visible_def account_slouch_def total_visible_def
  current_slouch_total_def elapsed_since_def end_slouch_def truthy_def py_int_def
  commit_def fetch_int_def dict_get_def TWENTY_TWENTY_SEC_def notify_after_def
  clear_posture_timers_def emit_alert_def

lemmas start_defs =
  fresh_session_def initial_session_def initial_aggregator_def initial_timers_def
  default_settings_def empty_store_def empty_tables_def cycle_at_def face_only_frame_def
  fetch_count1_def

lemmas erase_defs = execute_data_erase_def delete_all.simps erase_tables_def delete_from_def reset_metrics_def

lemma delete_all_erase_tables:
  "delete_all {} erase_tables st = Inr (st\<lparr>work := empty_tables\<rparr>)"
proof -
  have "foldl (\<lambda>ts t. delete_from t ts) w erase_tables = empty_tables" for w
    by (cases w) (simp add: erase_tables_def delete_from_def empty_tables_def)
  moreover have "delete_all {} ts st0 = Inr (st0\<lparr>work := foldl (\<lambda>x t. delete_from t x) (work st0) ts\<rparr>)"
    for ts st0
    by (induction ts arbitrary: st0) simp_all
  ultimately show ?thesis by simp
qed




















lemma clock_ok_pos: "clock_ok t evs \<Longrightarrow> 0 < t \<Longrightarrow> 0 < clock_after t evs"
proof (induction evs arbitrary: t)
  case Nil
  then show ?case by simp
next
  case (Cons e evs)
  then show ?case by (cases e) auto
qed








lemma condition_since_snoc: "condition_since (xs @ [x]) = since_step (condition_since xs) x"
  by (simp add: condition_since_def)

lemma take_Suc_snoc: "k < length xs \<Longrightarrow> take (Suc k) xs = take k xs @ [xs ! k]"
  by (simp add: take_Suc_conv_app_nth)














subsection \<open>Frame handoff\<close>

text \<open>
  C9, as stated: when the producer offers a new frame while the slot is full, the stored
  frame is overwritten by the new one. On the code the new frame is dropped instead:
  with frame 1 stored, offering frame 2 leaves frame 1 in the slot.
\<close>

theorem C9_full_slot_not_overwritten:
  "offer_frame [Some (1::nat)] 2 = [Some 1] \<and> offer_frame [Some (1::nat)] 2 \<noteq> [Some 2]"
  by (simp add: offer_frame_def put_nowait_def maxsize_def)

text \<open>
  C9, amended: the handoff is a single-slot buffer in which the stored item wins. Offering
  a frame to a full slot leaves the slot as it was (the new frame is dropped), offering to
  an empty slot stores the frame, the slot never holds more than one item, and the offer
  is a total, non-waiting operation (\<^verbatim>\<open>put_nowait\<close>).
\<close>

theorem C9_full_slot_keeps_stored_frame:
  "offer_frame [x] frame = [x] \<and> offer_frame [] frame = [Some frame]
   \<and> length (offer_frame [x] frame) = maxsize \<and> length (offer_frame [] frame) = maxsize"
  by (simp add: offer_frame_def put_nowait_def maxsize_def)

subsection \<open>Distance estimator\<close>

lemma feed_estimator_fixed_point:
  "enable_distance env \<Longrightarrow> calib_focal env = 700 \<Longrightarrow>
   feed_estimator env (Some 98) (replicate n (None, Some 100)) = (replicate n (Some 98), Some 98)"
  by (induction n)
     (simp_all add: estimate_distance_def eye_estimate_def face_estimate_def smooth_def
        beta_def avg_face_cm_def)

lemma feed_estimator_converges:
  "enable_distance env \<Longrightarrow> calib_focal env = 700 \<Longrightarrow>
   snd (feed_estimator env (Some s0) (replicate n (None, Some 100)))
     = Some (98 + 0.4 ^ n * (s0 - 98))"
proof (induction n arbitrary: s0)
  case 0
  then show ?case by simp
next
  case (Suc n)
  have step: "estimate_distance env (Some s0) None (Some 100)
                = (Some (0.6 * 98 + 0.4 * s0), Some (0.6 * 98 + 0.4 * s0))"
    using Suc.prems
    by (simp add: estimate_distance_def eye_estimate_def face_estimate_def smooth_def
          beta_def avg_face_cm_def Let_def)
  have "snd (feed_estimator env (Some s0) (replicate (Suc n) (None, Some 100)))
        = snd (feed_estimator env (Some (0.6 * 98 + 0.4 * s0)) (replicate n (None, Some 100)))"
    using step by (simp add: split_beta)
  also have "\<dots> = Some (98 + 0.4 ^ n * ((0.6 * 98 + 0.4 * s0) - 98))"
    by (rule Suc.IH[OF Suc.prems])
  also have "(0.6 * 98 + 0.4 * s0) - 98 = 0.4 * (s0 - 98)"
    by simp
  finally show ?case by simp
qed

text \<open>
  C6: with distance estimation enabled and a usable calibration (non-zero reference IPD
  and focal length), an eye-based measurement \<open>p > 2\<close> px gives the raw estimate
  \<open>real_ipd_cm * focal_length / p\<close>; when there is no eye-based measurement above 2 px,
  a face width \<open>w > 8\<close> px gives \<open>14 * focal_length / w\<close>. The output is the raw value
  smoothed by \<open>0.6 * new + (1 - 0.6) * previous\<close>, and the first sample seeds the filter.
  A constant face width of 100 px at focal length 700 gives 98 cm on every cycle of a
  fresh filter, and from any earlier filter value \<open>s\<close> the output after \<open>n\<close> cycles is
  \<open>98 + 0.4^n * (s - 98)\<close>, which settles at 98.
\<close>

theorem C6_distance_estimate:
  "(enable_distance env \<and> 2 < p \<and> calib_ipd env \<noteq> 0 \<and> calib_focal env \<noteq> 0 \<longrightarrow>
      estimate_distance env prev (Some p) fw
        = (Some (smooth prev (calib_ipd env * calib_focal env / p)),
           Some (smooth prev (calib_ipd env * calib_focal env / p))))
   \<and> (enable_distance env \<and> (case q of None \<Rightarrow> True | Some x \<Rightarrow> x \<le> 2) \<and> 8 < w \<longrightarrow>
      estimate_distance env prev q (Some w)
        = (Some (smooth prev (14 * calib_focal env / of_int w)),
           Some (smooth prev (14 * calib_focal env / of_int w))))
   \<and> smooth None d = d
   \<and> smooth (Some s) d = 0.6 * d + (1 - 0.6) * s
   \<and> (enable_distance env \<and> calib_focal env = 700 \<longrightarrow>
        feed_estimator env None (replicate (Suc n) (None, Some 100))
          = (replicate (Suc n) (Some 98), Some 98)
        \<and> snd (feed_estimator env (Some s) (replicate n (None, Some 100)))
          = Some (98 + 0.4 ^ n * (s - 98)))"
  using feed_estimator_fixed_point[of env n] feed_estimator_converges[of env s n]
  by (auto simp add: estimate_distance_def eye_estimate_def face_estimate_def smooth_def
        beta_def avg_face_cm_def Let_def split: option.splits)

theorem C6_distance_estimate_witness:
  "estimate_distance default_settings None (Some 63) None = (Some 70, Some 70)
   \<and> estimate_distance default_settings (Some 50) (Some 1) (Some 100)
       = (Some (394 / 5), Some (394 / 5))
   \<and> feed_estimator default_settings None (replicate (Suc 2) (None, Some 100))
       = (replicate (Suc 2) (Some 98), Some 98)
   \<and> snd (feed_estimator default_settings (Some 48) (replicate 2 (None, Some 100))) = Some 90"
  using C6_distance_estimate [of default_settings 63 None None "Some 1" 100 98 48 2]
        C6_distance_estimate [of default_settings 63 "Some 50" None "Some 1" 100 98 48 2]
  by (simp add: default_settings_def calib_focal_def calib_ipd_def dict_get_def smooth_def
        beta_def power2_eq_square)

subsection \<open>Exact averaging of distance samples\<close>

text \<open>
  C1: every flush of pending distance samples (the periodic flush and the flush at
  shutdown, with the store answering) writes to the day's \<^verbatim>\<open>distance_log\<close> record the
  average \<open>(old_avg * old_count + pending_sum) / (old_count + pending_count)\<close> and the
  count \<open>old_count + pending_count\<close>, commits it and zeroes the pending sum and count. When
  the record held the mean and the number of the samples \<open>xs\<close> merged so far (or was absent,
  \<open>xs = []\<close>) and \<open>ys\<close> are the pending samples, the committed record holds the mean and the
  number of \<open>xs @ ys\<close>. Merging two partial averages \<open>(mean xs, n1)\<close> and \<open>(mean ys, n2)\<close>
  by the formula gives the mean of the whole sequence. Floats are exact reals here.
\<close>

theorem C1_weighted_mean_on_flush:
  assumes "enable_distance (cfg s)" and "ys \<noteq> []"
    and "pending_distance_sum (agg s) = sum_list ys"
    and "pending_distance_count (agg s) = int (length ys)"
    and "distance_log (work st) d
           = (if xs = [] then None else Some (Some (mean xs), Some (int (length xs))))"
  shows "(case flush_daily {} periodic now d h cv cs (s, st) of (s', st') \<Rightarrow>
            distance_log (durable st') d
              = Some (Some ((fetch_real0 (distance_log (work st)) d
                               * of_int (fetch_count1 (distance_log (work st)) d)
                             + pending_distance_sum (agg s))
                            / of_int (fetch_count1 (distance_log (work st)) d
                                      + pending_distance_count (agg s))),
                      Some (fetch_count1 (distance_log (work st)) d + pending_distance_count (agg s)))
            \<and> distance_log (durable st') d
              = Some (Some (mean (xs @ ys)), Some (int (length (xs @ ys))))
            \<and> pending_distance_sum (agg s') = 0 \<and> pending_distance_count (agg s') = 0)
         \<and> merge_average (mean xs) (int (length xs)) (mean ys * of_int (int (length ys)))
              (int (length ys)) = (mean (xs @ ys), int (length (xs @ ys)))"
proof -
  have m: "merge_average (mean xs) (int (length xs)) (sum_list ys) (int (length ys))
           = (mean (xs @ ys), int (length (xs @ ys)))"
    by (rule merge_average_append[OF assms(2)])
  have my: "mean ys * of_int (int (length ys)) = sum_list ys"
    using assms(2) by (simp add: mean_def)
  have old: "fetch_real0 (distance_log (work st)) d = mean xs"
            "fetch_count1 (distance_log (work st)) d = int (length xs)"
    using assms(5) by (auto simp: fetch_real0_def fetch_count1_def mean_def)
  have pos: "0 < int (length xs) + int (length ys)" using assms(2) by (cases ys) auto
  have m2: "(mean xs * real (length xs) + sum_list ys) / (real (length xs) + real (length ys)) = mean (xs @ ys)"
    using m pos by (simp add: merge_average_def Let_def)
  obtain ch1 s1 st1 where w1: "daily_screen_flush {} periodic d cv (s, st) = Inr (ch1, s1, st1)"
    by (simp add: daily_screen_flush_nofault)
  note k1 = daily_screen_flush_keeps_distance[OF w1]
  obtain ch2 s2 st2 where w2: "daily_posture_flush {} periodic d cs (s1, st1) = Inr (ch2, s2, st2)"
    by (simp add: daily_posture_flush_nofault)
  note k2 = daily_posture_flush_keeps_distance[OF w2]
  have en: "enable_distance (cfg s2)" using assms(1) k1 k2 by simp
  have pc: "0 < pending_distance_count (agg s2)" using assms(2,4) k1 k2 by (cases ys) auto
  obtain s3 st3 where w3: "daily_distance_flush {} periodic d (s2, st2) = Inr (True, s3, st3)"
    and z3: "pending_distance_sum (agg s3) = 0" "pending_distance_count (agg s3) = 0"
    and r3: "distance_log (work st3) d
               = Some (Some (fst (merge_average (fetch_real0 (distance_log (work st2)) d)
                                    (fetch_count1 (distance_log (work st2)) d)
                                    (pending_distance_sum (agg s2)) (pending_distance_count (agg s2)))),
                       Some (fetch_count1 (distance_log (work st2)) d + pending_distance_count (agg s2)))"
    using daily_distance_flush_merge[OF en pc, of periodic d st2] by blast
  obtain hc a4 st4 where w4: "flush_hourly_store {} h False (agg s3) st3 = (hc, a4, st4)"
    by (cases "flush_hourly_store {} h False (agg s3) st3") auto
  note k4 = flush_hourly_store_keeps_daily[OF w4]
  have res: "flush_daily {} periodic now d h cv cs (s, st)
               = (s3\<lparr>agg := (if periodic then a4\<lparr>last_save_time := now\<rparr> else a4)\<rparr>, commit st4)"
    by (simp add: flush_daily_def w1 w2 w3 w4)
  have row: "distance_log (work st4) d
               = Some (Some ((mean xs * real (length xs) + sum_list ys) / (real (length xs) + real (length ys))),
                       Some (int (length xs) + int (length ys)))"
    using r3 k1 k2 k4 old assms(3,4) pos by (simp add: merge_average_def Let_def)
  show ?thesis
    using row m2 m my z3 k4 old assms(3,4)
    by (simp add: res commit_def)
qed


theorem C1_weighted_mean_on_flush_witness:
  "distance_log (durable (snd (flush_daily {} True 1020 ''2024-05-01'' ''2024-05-01 10'' 0 0
       (distance_session, distance_store)))) ''2024-05-01'' = Some (Some 60, Some 4)
   \<and> mean ([40, 60] @ [60, 80]) = 60
   \<and> pending_distance_count (agg (fst (flush_daily {} True 1020 ''2024-05-01'' ''2024-05-01 10'' 0 0
       (distance_session, distance_store)))) = 0"
  using C1_weighted_mean_on_flush [of distance_session "[60, 80]" distance_store "''2024-05-01''"
          "[40, 60]" True 1020 "''2024-05-01 10''" 0 0]
  by (simp add: distance_session_def distance_store_def fresh_session_def initial_session_def
        default_settings_def empty_store_def empty_tables_def mean_def case_prod_beta
        fetch_real0_def fetch_count1_def Let_def)

subsection \<open>Data erase\<close>

text \<open>
  C8: with the database open and no storage error, the data erase leaves all seven tables
  (\<^verbatim>\<open>alerts\<close>, \<^verbatim>\<open>screen_time\<close>, \<^verbatim>\<open>posture_time\<close>, \<^verbatim>\<open>distance_log\<close>, \<^verbatim>\<open>screen_hourly\<close>,
  \<^verbatim>\<open>posture_hourly\<close>, \<^verbatim>\<open>distance_hourly\<close>) empty and committed; and, whatever the store
  does, it changes nothing of the settings or of the calibration: \<^verbatim>\<open>self.calib\<close> (with the
  neutral baseline), \<^verbatim>\<open>focal_length\<close> and \<^verbatim>\<open>real_ipd_cm\<close>, and so the focal length and the
  reference IPD the estimator works with, are what they were.
\<close>

theorem C8_erase_keeps_calibration:
  "(case execute_data_erase {} (s, Some st) of
      (s', db') \<Rightarrow> db' = Some \<lparr>work = empty_tables, durable = empty_tables\<rparr>)
   \<and> cfg (fst (execute_data_erase F (s, db))) = cfg s
   \<and> calib (cfg (fst (execute_data_erase F (s, db)))) = calib (cfg s)
   \<and> calib_focal (cfg (fst (execute_data_erase F (s, db)))) = calib_focal (cfg s)
   \<and> calib_ipd (cfg (fst (execute_data_erase F (s, db)))) = calib_ipd (cfg s)"
proof -
  have "cfg (fst (execute_data_erase F (s, db))) = cfg s"
    by (simp add: execute_data_erase_def reset_metrics_def split: option.splits sum.splits)
  moreover have "(case execute_data_erase {} (s, Some st) of
      (s', db') \<Rightarrow> db' = Some \<lparr>work = empty_tables, durable = empty_tables\<rparr>)"
    by (cases st) (simp add: execute_data_erase_def delete_all_erase_tables commit_def)
  ultimately show ?thesis by simp
qed

subsection \<open>Suppression of posture flags on a turned body\<close>

lemma contact_turned_frame:
  "contact_flags default_settings turned_frame = Inr (True, False)"
  by (simp add: contact_flags_def turned_frame_def default_settings_def FINGERTIP_IDX_def
        near_mouth_def py_int_def NAIL_CONTACT_MARGIN_def NAIL_BITING_DEPTH_THRESH_def)

lemma span_turned_frame: "shoulder_geometry turned_frame 100 = (50, 0)"
proof -
  have "sqrt (2500::real) = 50" by (rule real_sqrt_unique) simp_all
  then show ?thesis
    by (simp add: shoulder_geometry_def turned_frame_def atan2_def degrees_def)
qed

lemma fields_turned_frame:
  "face_width_px turned_frame = Some 100"
  "head_center_px turned_frame = Some (320, 200)"
  "nose_px turned_frame = Some (320, 200)"
  "shoulder_mid_px turned_frame = Some (325, 250)"
  "last_eyes turned_frame = []"
  by (simp_all add: turned_frame_def)

lemma thresholds_default_settings:
  "posture_vert_thresh default_settings = 0.7"
  "posture_neck_thresh default_settings = 0.55"
  "calib_neutral (calib default_settings) = None"
  by (simp_all add: default_settings_def)

lemma raw_turned_frame:
  "\<exists>raw. raw_flags default_settings None turned_frame = Some raw \<and> body_turned raw
          \<and> nail_biting raw \<and> vertical_bad raw \<and> neck_short_bad raw"
  by (simp add: raw_flags_def classify_geometry_def contact_turned_frame span_turned_frame
        fields_turned_frame thresholds_default_settings Let_def eps_def)

text \<open>
  C5: on every frame for which the classifier computes \<^verbatim>\<open>body_turned\<close> true, the returned
  flags have \<^verbatim>\<open>eye_tilt_bad\<close>, \<^verbatim>\<open>vertical_bad\<close>, \<^verbatim>\<open>depth_bad\<close>, \<^verbatim>\<open>head_twist_bad\<close>,
  \<^verbatim>\<open>neck_short_bad\<close> and \<^verbatim>\<open>horizontal_offset_bad\<close> false whatever their computed values,
  \<^verbatim>\<open>body_turned\<close> stays true, and \<^verbatim>\<open>nail_biting\<close> and \<^verbatim>\<open>face_touch\<close> keep their computed
  values.
\<close>

theorem C5_turned_body_clears_posture_flags:
  assumes "raw_flags c baseline f = Some raw" and "body_turned raw"
  shows "(let flags = fst (fst (compute_posture_flags c baseline f))
          in \<not> eye_tilt_bad flags \<and> \<not> vertical_bad flags \<and> \<not> depth_bad flags
             \<and> \<not> head_twist_bad flags \<and> \<not> neck_short_bad flags
             \<and> \<not> horizontal_offset_bad flags \<and> body_turned flags
             \<and> nail_biting flags = nail_biting raw \<and> face_touch flags = face_touch raw)"
  using assms
  by (auto simp add: raw_flags_def compute_posture_flags_def suppress_turned_def Let_def
        split: prod.splits option.splits sum.splits)

theorem C5_turned_body_clears_posture_flags_witness:
  "(case raw_flags default_settings None turned_frame of
      None \<Rightarrow> False
    | Some raw \<Rightarrow> body_turned raw \<and> vertical_bad raw \<and> neck_short_bad raw \<and> nail_biting raw)
   \<and> \<not> vertical_bad (fst (fst (compute_posture_flags default_settings None turned_frame)))
   \<and> \<not> neck_short_bad (fst (fst (compute_posture_flags default_settings None turned_frame)))
   \<and> body_turned (fst (fst (compute_posture_flags default_settings None turned_frame)))
   \<and> nail_biting (fst (fst (compute_posture_flags default_settings None turned_frame)))"
proof -
  obtain raw where r: "raw_flags default_settings None turned_frame = Some raw"
    and b: "body_turned raw" and n: "nail_biting raw"
    and v: "vertical_bad raw" "neck_short_bad raw"
    using raw_turned_frame by blast
  show ?thesis
    using C5_turned_body_clears_posture_flags [OF r b] r b n v by (simp add: Let_def)
qed

subsection \<open>Watermarks and idempotent flushes\<close>

text \<open>
  C3: the saved watermark can exceed the accumulated total. The totals are computed from
  \<^verbatim>\<open>time.time()\<close>, so a clock that steps back shortens the segment in progress below what
  was already saved; and a data erase of the main thread that runs inside a cycle, after the
  totals were read and before the flush, zeroes the accumulators and then has the old total
  saved as the watermark. The code clamps the unsaved delta with \<^verbatim>\<open>max(0, ...)\<close>. What holds:
  in every execution from start-up in which the clock does not go backwards and every data
  erase and the shutdown handler run between two cycles (cycles of the statistics loop, data
  erases and shutdown in any order, whatever the detectors report and whichever statements
  the store fails), after every event and at every later time each saved watermark is at
  most the corresponding accumulated total, for visible time and for bad-posture time, so
  that the unsaved delta is the plain difference. And a flush that follows a flush with no
  storage error, with the same totals, is a no-op: it returns the attributes and the store
  as they were.
\<close>

theorem C3_watermark_never_exceeds_total:
  assumes "clock_ok t0 evs" and "sequential evs"
  shows "(\<forall>n. \<forall>t \<ge> clock_after t0 (take n evs).
            (let a = agg (fst (run_events i (take n evs) (initial_session c t0 d counts db, db)))
             in saved_visible_seconds a \<le> total_visible t a
                \<and> saved_slouch_seconds a \<le> current_slouch_total t a
                \<and> unsaved_visible_seconds t a = total_visible t a - saved_visible_seconds a
                \<and> unsaved_slouch_seconds t a = current_slouch_total t a - saved_slouch_seconds a))
         \<and> flush_daily F' p' now' d' h' cv cs (flush_daily {} p now d' h cv cs (s, st))
               = flush_daily {} p now d' h cv cs (s, st)"
proof -
  have "watermark_inv t (agg (fst (run_events i (take n evs) (initial_session c t0 d counts db, db))))"
    if "clock_after t0 (take n evs) \<le> t" for n t
  proof -
    have "watermark_inv (clock_after t0 (take n evs))
            (agg (fst (run_events i (take n evs) (initial_session c t0 d counts db, db))))"
      using clock_ok_take[OF assms(1), of n] sequential_take[OF assms(2), of n]
      by (intro run_events_inv) (simp_all add: initial_session_inv)
    then show ?thesis using that by (rule watermark_inv_later)
  qed
  then show ?thesis
    by (simp add: flush_daily_idempotent watermark_inv_def Let_def unsaved_visible_seconds_def
          unsaved_slouch_seconds_def)
qed

theorem C3_watermark_never_exceeds_total_witness:
  "clock_ok 1000 [Cycle (cycle_at 1001 True), Cycle (cycle_at 1101 True), Erase {},
                  Cycle (cycle_at 1117 True)]
   \<and> sequential [Cycle (cycle_at 1001 True), Cycle (cycle_at 1101 True), Erase {},
                  Cycle (cycle_at 1117 True)]
   \<and> (let a = agg (fst (run_events 15
                 [Cycle (cycle_at 1001 True), Cycle (cycle_at 1101 True), Erase {},
                  Cycle (cycle_at 1117 True)] (fresh_session, Some empty_store)))
      in saved_visible_seconds a = 116 \<and> total_visible 1117 a = 116
         \<and> saved_visible_seconds a \<le> total_visible 1120 a
         \<and> unsaved_visible_seconds 1120 a = total_visible 1120 a - saved_visible_seconds a)
   \<and> flush_daily {} True 1133 ''2024-05-01'' ''2024-05-01 10'' 116 0
         (flush_daily {} True 1117 ''2024-05-01'' ''2024-05-01 10'' 116 0
            (fresh_session, empty_store))
       = flush_daily {} True 1117 ''2024-05-01'' ''2024-05-01 10'' 116 0 (fresh_session, empty_store)"
proof -
  have ok: "clock_ok 1000 [Cycle (cycle_at 1001 True), Cycle (cycle_at 1101 True), Erase {},
                  Cycle (cycle_at 1117 True)]"
    by (simp add: cycle_at_def)
  have sq: "sequential [Cycle (cycle_at 1001 True), Cycle (cycle_at 1101 True), Erase {},
                  Cycle (cycle_at 1117 True)]"
    by simp
  have ev: "saved_visible_seconds (agg (fst (run_events 15
                 [Cycle (cycle_at 1001 True), Cycle (cycle_at 1101 True), Erase {},
                  Cycle (cycle_at 1117 True)] (fresh_session, Some empty_store)))) = 116"
           "total_visible 1117 (agg (fst (run_events 15
                 [Cycle (cycle_at 1001 True), Cycle (cycle_at 1101 True), Erase {},
                  Cycle (cycle_at 1117 True)] (fresh_session, Some empty_store)))) = 116"
    by (simp_all add: cycle_defs start_defs erase_defs Let_def)
  have cl: "clock_after 1000 [Cycle (cycle_at 1001 True), Cycle (cycle_at 1101 True), Erase {},
                  Cycle (cycle_at 1117 True)] = 1117"
    by (simp add: cycle_at_def)
  show ?thesis
    using C3_watermark_never_exceeds_total [OF ok sq, where i = 15 and c = default_settings
        and d = "''2024-05-01''" and counts = "(0, 0, 0)" and db = "Some empty_store"
        and F' = "{}" and p' = True and now' = 1133 and d' = "''2024-05-01''"
        and h' = "''2024-05-01 10''" and cv = 116 and cs = 0 and p = True and now = 1117
        and h = "''2024-05-01 10''" and s = fresh_session and st = empty_store]
      ok ev cl
    apply (simp only: fresh_session_def[symmetric])
    apply (elim conjE)
    apply (drule spec[of _ 4])
    apply (drule spec[of _ 1120])
    apply (simp add: Let_def)
    done
qed

text \<open>
  The clock steps back: cycles at 1001, 1101 and 1050 with a face in view. The flush at
  1101 saves 100 s; at 1050 the total is \<^verbatim>\<open>int(1050 - 1001) = 49\<close>. And the erase inside a
  cycle: the face is seen at 1001 and lost at 1101, total 100 s; the erase zeroes the
  accumulators, then the flush of the same cycle saves the 100 s read before, over a total
  of 0.
\<close>

theorem C3_watermark_above_total:
  "saved_visible_seconds (agg (fst (run_events 15
       [Cycle (cycle_at 1001 True), Cycle (cycle_at 1101 True), Cycle (cycle_at 1050 True)]
       (fresh_session, Some empty_store)))) = 100
   \<and> total_visible 1050 (agg (fst (run_events 15
       [Cycle (cycle_at 1001 True), Cycle (cycle_at 1101 True), Cycle (cycle_at 1050 True)]
       (fresh_session, Some empty_store)))) = 49
   \<and> saved_visible_seconds (agg (fst (run_events 15
       [Cycle (cycle_at 1001 True), CycleErased (cycle_at 1101 False) {}]
       (fresh_session, Some empty_store)))) = 100
   \<and> total_visible 1101 (agg (fst (run_events 15
       [Cycle (cycle_at 1001 True), CycleErased (cycle_at 1101 False) {}]
       (fresh_session, Some empty_store)))) = 0"
proof -
  have stepped: "watermark_view (agg (fst (run_events 15
       [Cycle (cycle_at 1001 True), Cycle (cycle_at 1101 True), Cycle (cycle_at 1050 True)]
       (fresh_session, Some empty_store)))) = (Some 1001, 0, None, 0, 100, 0)"
    by (simp add: cycle_defs start_defs Let_def watermark_view_def)
  have erased: "watermark_view (agg (fst (run_events 15
       [Cycle (cycle_at 1001 True), CycleErased (cycle_at 1101 False) {}]
       (fresh_session, Some empty_store)))) = (None, 0, None, 0, 100, 0)"
    by (simp add: cycle_defs start_defs erase_defs stats_cycle_erased_def Let_def
          watermark_view_def)
  have t1: "total_visible t a = 49"
    if "watermark_view a = (Some 1001, 0, None, 0, 100, 0)" and "t = 1050" for t a
    using that by (simp add: watermark_view_def total_visible_def elapsed_since_def py_int_def)
  have t2: "total_visible t a = 0" if "watermark_view a = (None, 0, None, 0, 100, 0)" for t a
    using that by (simp add: watermark_view_def total_visible_def elapsed_since_def)
  have sv: "saved_visible_seconds a = 100"
    if "watermark_view a = (v, n, u, m, 100, k)" for a v n u m k
    using that by (simp add: watermark_view_def)
  show ?thesis
    using sv[OF stepped] t1[OF stepped] sv[OF erased] t2[OF erased, of 1101] by simp
qed

subsection \<open>Accumulated visible time\<close>




subsection \<open>A flush that fails\<close>

text \<open>
  C2, on the code. The periodic flush advances each watermark and zeroes each pending
  buffer right after its statement has run, before \<^verbatim>\<open>conn.commit()\<close>. With 16 visible
  seconds accumulated and a commit that raises in the cycle of 1017, the flush returns
  with \<^verbatim>\<open>saved_visible_seconds\<close> advanced from 0 to 16 and the hourly buffer zeroed from
  16 to 0, while nothing is committed. The hourly flush run on its own defers its resets
  until after the commit; there a statement that raises after an earlier one has run
  leaves the buffer in place and the written row in the open transaction, and the next
  flush applies the same 16 seconds a second time.
\<close>

theorem C2_failed_flush_advances_watermark:
  "(let w0 = run_events SAVE_INTERVAL_SEC [Cycle (cycle_at 1001 True)]
               (fresh_session, Some empty_store);
        w1 = run_events SAVE_INTERVAL_SEC [Cycle ((cycle_at 1017 True)\<lparr>in_faults := {Commit}\<rparr>)] w0
    in saved_visible_seconds (agg (fst w0)) = 0
       \<and> saved_visible_seconds (agg (fst w1)) = 16
       \<and> pending_hour_visible_seconds (account_visible 1017 (agg (fst w0))) = 16
       \<and> pending_hour_visible_seconds (agg (fst w1)) = 0
       \<and> screen_time (durable (the (snd w1))) ''2024-05-01'' = None
       \<and> screen_hourly (durable (the (snd w1))) ''2024-05-01 10'' = None)
   \<and> (let a = (initial_aggregator 1000)\<lparr>pending_hour_visible_seconds := 16,
                                           pending_hour_slouch_seconds := 5\<rparr>;
            r1 = flush_hourly_metrics {Select PostureHourly} (Some ''2024-05-01 10'') True a
                   (Some empty_store);
            r2 = flush_hourly_metrics {} (Some ''2024-05-01 10'') True (fst (snd r1)) (snd (snd r1))
        in pending_hour_visible_seconds (fst (snd r1)) = 16
           \<and> screen_hourly (durable (the (snd (snd r2)))) ''2024-05-01 10'' = Some 32)"
  by (simp add: cycle_defs start_defs SAVE_INTERVAL_SEC_def Let_def)

subsection \<open>Data erase with a segment in progress\<close>

text \<open>
  C10, on the code. The erase does reset every attribute the claim lists, and with the
  store answering it leaves the tables empty. It does not reset \<^verbatim>\<open>visible_start\<close> (nor
  \<^verbatim>\<open>slouch_session_start\<close>), the start of the segment in progress. With a face in view
  since 1001 and an erase right after the cycle of 1101, the cycle of 1117 computes a
  total of 116 visible seconds against a watermark of 0 and writes 116 seconds to the
  day's \<^verbatim>\<open>screen_time\<close> record, 16 seconds after the erase.
\<close>

theorem C10_erase_keeps_segment_in_progress:
  "(let a = agg (fst (execute_data_erase {} (s, db)))
    in visible_seconds a = 0 \<and> slouch_accum_seconds a = 0
       \<and> saved_visible_seconds a = 0 \<and> saved_slouch_seconds a = 0
       \<and> pending_hour_visible_seconds a = 0 \<and> pending_hour_slouch_seconds a = 0
       \<and> pending_hour_distance_sum a = 0 \<and> pending_hour_distance_count a = 0
       \<and> pending_distance_sum a = 0 \<and> pending_distance_count a = 0
       \<and> distance_sum_total a = 0 \<and> distance_count_total a = 0 \<and> distances_buffer a = []
       \<and> active_alerts (fst (execute_data_erase {} (s, db))) = {}
       \<and> visible_start a = visible_start (agg s)
       \<and> slouch_session_start a = slouch_session_start (agg s))
   \<and> (let w = run_events SAVE_INTERVAL_SEC
                  [Cycle (cycle_at 1001 True), Cycle (cycle_at 1101 True), Erase {}]
                  (fresh_session, Some empty_store)
        in screen_time (durable (the (snd w))) ''2024-05-01'' = None
           \<and> visible_start (agg (fst w)) = Some 1001
           \<and> screen_time (durable (the (snd
                 (run_events SAVE_INTERVAL_SEC [Cycle (cycle_at 1117 True)] w)))) ''2024-05-01''
               = Some 116)"
proof -
  have a: "execute_data_erase {} (s, db)
             = (reset_metrics s, (case db of None \<Rightarrow> None
                  | Some st \<Rightarrow> Some (commit (st\<lparr>work := empty_tables\<rparr>))))"
    by (simp add: execute_data_erase_def delete_all_erase_tables split: option.splits)
  have b: "screen_time (durable (the (snd (run_events SAVE_INTERVAL_SEC
                  [Cycle (cycle_at 1001 True), Cycle (cycle_at 1101 True), Erase {}]
                  (fresh_session, Some empty_store))))) ''2024-05-01'' = None"
    "visible_start (agg (fst (run_events SAVE_INTERVAL_SEC
                  [Cycle (cycle_at 1001 True), Cycle (cycle_at 1101 True), Erase {}]
                  (fresh_session, Some empty_store)))) = Some 1001"
    by (simp_all add: cycle_defs start_defs erase_defs SAVE_INTERVAL_SEC_def Let_def)
  have c: "screen_time (durable (the (snd (run_events SAVE_INTERVAL_SEC
                  [Cycle (cycle_at 1117 True)] (run_events SAVE_INTERVAL_SEC
                  [Cycle (cycle_at 1001 True), Cycle (cycle_at 1101 True), Erase {}]
                  (fresh_session, Some empty_store)))))) ''2024-05-01'' = Some 116"
    by (simp add: cycle_defs start_defs erase_defs SAVE_INTERVAL_SEC_def Let_def)
  show ?thesis
    using b c by (simp add: a reset_metrics_def Let_def)
qed

subsection \<open>Debounced alert lanes\<close>




end
